theory Spec2Isabelle
  imports Main
begin

section \<open>Values, requests and provider configuration\<close>

text \<open>
  The module under study is \<^verbatim>\<open>src/index.ts\<close>: a JSON-RPC provider that relays plain
  calls over XMLHttpRequest and signing calls over a WalletConnect session. Its two
  module-level variables \<^verbatim>\<open>sessionPromise\<close> and \<^verbatim>\<open>webconnector\<close> are shared mutable
  state, its control flow runs through promises and event listeners. The embedding is a
  state machine: every closure of the source is a constructor of a datatype together with
  the function that runs its body, every call into an external collaborator is appended
  to a list of effects, and every stimulus of the environment is an event.

  JavaScript values are modelled by \<open>jsval\<close>; \<open>Err\<close> stands for an \<^verbatim>\<open>Error\<close> object
  with the given message.
\<close>

datatype jsval =
    Undefined
  | Null
  | Bool bool
  | Num int
  | Str string
  | Arr "jsval list"
  | Obj "(string \<times> jsval) list"
  | Err string

datatype completion = Normal | Throw jsval

fun truthy :: "jsval \<Rightarrow> bool" where
  "truthy Undefined = False"
| "truthy Null = False"
| "truthy (Bool b) = b"
| "truthy (Num n) = (n \<noteq> 0)"
| "truthy (Str s) = (s \<noteq> [])"
| "truthy (Arr xs) = True"
| "truthy (Obj kvs) = True"
| "truthy (Err m) = True"

definition js_and :: "jsval \<Rightarrow> jsval \<Rightarrow> jsval" where
  "js_and a b = (if truthy a then b else a)"

definition js_or :: "jsval \<Rightarrow> jsval \<Rightarrow> jsval" where
  "js_or a b = (if truthy a then a else b)"

text \<open>
  Property access \<^verbatim>\<open>v[k]\<close>. Reading a property of \<^verbatim>\<open>undefined\<close> or \<^verbatim>\<open>null\<close> throws a
  TypeError; the only index the source uses is \<^verbatim>\<open>0\<close>, the only built-in property
  \<^verbatim>\<open>length\<close>.
\<close>

fun js_member :: "jsval \<Rightarrow> string \<Rightarrow> jsval + jsval" where
  "js_member Undefined k = Inl (Err ''TypeError'')"
| "js_member Null k = Inl (Err ''TypeError'')"
| "js_member (Obj kvs) k = Inr (case map_of kvs k of None \<Rightarrow> Undefined | Some v \<Rightarrow> v)"
| "js_member (Arr xs) k =
     Inr (if k = ''0'' then (case xs of [] \<Rightarrow> Undefined | x # _ \<Rightarrow> x)
          else if k = ''length'' then Num (int (length xs)) else Undefined)"
| "js_member (Str cs) k =
     Inr (if k = ''0'' then (case cs of [] \<Rightarrow> Undefined | c # _ \<Rightarrow> Str [c])
          else if k = ''length'' then Num (int (length cs)) else Undefined)"
| "js_member v k = Inr Undefined"

fun js_path :: "jsval \<Rightarrow> string list \<Rightarrow> jsval + jsval" where
  "js_path v [] = Inr v"
| "js_path v (k # ks) = (case js_member v k of Inl e \<Rightarrow> Inl e | Inr w \<Rightarrow> js_path w ks)"

text \<open>Property access on a value already known to be truthy: it cannot throw.\<close>

definition get_prop :: "jsval \<Rightarrow> string \<Rightarrow> jsval" where
  "get_prop v k = (case js_member v k of Inl e \<Rightarrow> Undefined | Inr w \<Rightarrow> w)"

text \<open>A JSON-RPC request object as the caller passes it to \<^verbatim>\<open>sendAsync\<close>.\<close>

record request =
  rq_id :: jsval
  rq_jsonrpc :: jsval
  rq_method :: string
  rq_params :: "jsval list"

text \<open>
  The lifecycle hooks of \<^verbatim>\<open>interface Callbacks\<close>. A hook is an optional function of the
  caller; it is identified by a number, \<open>None\<close> when it was not supplied.
\<close>

record hooks =
  onConnect :: "nat option"
  onCreate :: "nat option"
  onAbort :: "nat option"
  onUpdate :: "nat option"
  onDisconnect :: "nat option"

text \<open>The fields of \<^verbatim>\<open>class WalletConnectProvider\<close>.\<close>

record provider =
  host :: string
  timeout :: int
  user :: "string option"
  password :: "string option"
  headers :: "(string \<times> string) list option"
  bridgeURL :: string
  showQRCode :: bool
  callbacks :: hooks

text \<open>The constructor's argument: every field may be absent.\<close>

record options =
  o_host :: "string option"
  o_timeout :: "int option"
  o_user :: "string option"
  o_password :: "string option"
  o_headers :: "(string \<times> string) list option"
  o_bridgeURL :: "string option"
  o_showQRCode :: "bool option"
  o_callbacks :: "hooks option"

definition no_hooks :: hooks where
  "no_hooks = \<lparr>onConnect = None, onCreate = None, onAbort = None, onUpdate = None,
     onDisconnect = None\<rparr>"

definition WalletConnectProvider :: "options \<Rightarrow> provider" where
  "WalletConnectProvider opts =
     \<lparr>host = (case o_host opts of None \<Rightarrow> ''http://localhost:8545'' | Some h \<Rightarrow> h),
      timeout = (case o_timeout opts of None \<Rightarrow> 0 | Some t \<Rightarrow> t),
      user = o_user opts,
      password = o_password opts,
      headers = o_headers opts,
      bridgeURL =
        (case o_bridgeURL opts of None \<Rightarrow> ''https://bridge.walletconnect.org'' | Some b \<Rightarrow> b),
      showQRCode = (case o_showQRCode opts of None \<Rightarrow> True | Some q \<Rightarrow> q),
      callbacks = (case o_callbacks opts of None \<Rightarrow> no_hooks | Some c \<Rightarrow> c)\<rparr>"

definition walletconnectMethods :: "string list" where
  "walletconnectMethods =
     [''eth_signTransaction'', ''eth_sendTransaction'', ''eth_sign'',
      ''eth_signTypedDataLegacy'', ''eth_signTypedData'', ''personal_sign'']"

definition supportedMethods :: "string list" where
  "supportedMethods = ''eth_accounts'' # walletconnectMethods"

section \<open>The state: globals, objects, promises and effects\<close>

type_synonym pid = nat
type_synonym cid = nat
type_synonym eid = nat
type_synonym xid = nat
type_synonym ref = nat
type_synonym cbid = nat

text \<open>
  The closures of the source, one constructor each.
  \<^item> \<open>ForwardK R\<close>: \<^verbatim>\<open>d.then(r => resolve(r)).catch(e => reject(e))\<close> in \<^verbatim>\<open>createWebconnector\<close>;
  \<^item> \<open>SigningK r cb\<close>: the chain
    \<^verbatim>\<open>p.then(() => webconnector.sendCustomRequest(payload)).then(...).catch(...)\<close>;
  \<^item> \<open>AccountsK r cb\<close>: the chain of the \<^verbatim>\<open>eth_accounts\<close> branch;
  \<^item> \<open>PlainK P r cb\<close>: the chain of the \<^verbatim>\<open>else\<close> branch (normal call).
\<close>

datatype reaction =
    ForwardK pid
  | SigningK ref cbid
  | AccountsK ref cbid
  | PlainK provider ref cbid

text \<open>The listeners registered with \<^verbatim>\<open>webconnector.on\<close>.\<close>

datatype listener =
    OnConnect provider pid
  | OnDisconnect provider
  | OnSessionUpdate provider pid

text \<open>
  The handlers attached to a promise of the pairing transport: the pair
  \<^verbatim>\<open>.then(...)\<close>/\<^verbatim>\<open>.catch(...)\<close> on \<^verbatim>\<open>createSession()\<close> (with the captured \<^verbatim>\<open>this\<close>,
  \<^verbatim>\<open>d\<close> and the \<^verbatim>\<open>resolve\<close>/\<^verbatim>\<open>reject\<close> of the returned promise), and the pair on
  \<^verbatim>\<open>sendCustomRequest(payload)\<close>.
\<close>

datatype extcont =
    CreateSessionK provider pid pid
  | CustomRequestK ref cbid

datatype settlement = Fulfilled jsval | Rejected jsval

record promise =
  settled :: "settlement option"
  reactions :: "reaction list"

record connector =
  wc_bridge :: string
  wc_connected :: bool
  wc_session :: jsval
  wc_uri :: string
  wc_listeners :: "(string \<times> listener) list"

record xhr =
  xh_url :: string
  xh_async :: bool
  xh_headers :: "(string \<times> string) list"
  xh_timeout :: int
  xh_readyState :: nat
  xh_responseText :: string
  xh_onreadystatechange :: "cbid option"
  xh_ontimeout :: "(provider \<times> cbid) option"
  xh_sent :: "(string \<times> nat) option"

text \<open>
  Every call the module makes into a collaborator or into a function of its caller.
  \<open>Callback cb err obj\<close> is \<^verbatim>\<open>cb(err, obj)\<close> on the callback given to \<^verbatim>\<open>sendAsync\<close>;
  \<open>Uncaught e\<close> is an exception that leaves a listener and reaches the event emitter.
  The hooks and callbacks of the caller are taken to return normally, and so are the
  constructors and methods of the collaborators, except \<^verbatim>\<open>request.send\<close>; what a
  collaborator answers later (a settled promise, an emitted event, a state change of an
  XMLHttpRequest) is an event of the environment.
\<close>

datatype effect =
    WC_new cid string
  | WC_on cid string
  | WC_createSession cid eid
  | WC_sendCustomRequest cid ref eid
  | WC_killSession cid
  | Modal_open string
  | Modal_close
  | Hook nat "jsval list"
  | Callback cbid jsval jsval
  | XHR_send xid string
  | Uncaught jsval

text \<open>
  \<open>sessionPromise\<close> and \<open>webconnector\<close> are the two module-level variables. Objects live
  in stores indexed by their identity: \<open>heap\<close> holds the request objects of the callers,
  \<open>promises\<close>, \<open>connectors\<close>, \<open>pending\<close> and \<open>xhrs\<close> the objects the module allocates (a
  new object gets the next index). \<open>jobs\<close> is the microtask queue, \<open>modal\<close> the abort
  closure handed to the QR-code modal while it is open, \<open>now\<close> the clock.
\<close>

record state =
  sessionPromise :: "pid option"
  webconnector :: "cid option"
  heap :: "ref \<Rightarrow> request"
  promises :: "promise list"
  jobs :: "(pid \<times> reaction) list"
  connectors :: "connector list"
  pending :: "extcont option list"
  xhrs :: "xhr list"
  modal :: "(string \<times> provider) option"
  now :: nat
  effects :: "effect list"

text \<open>
  Functions of the libraries and of the platform that the module calls and that are not
  part of it. \<open>convertNumberToHex\<close> gives the string the library function returns, or
  (\<open>Inl\<close>) the error it throws, as it does for a value that is no number.
  \<open>WalletConnect_restore\<close> gives the \<^verbatim>\<open>connected\<close> flag and the \<^verbatim>\<open>session\<close> of
  a connector just built for a bridge (the library restores a stored session);
  \<open>XHR_send_fails\<close> says whether \<^verbatim>\<open>request.send\<close> throws for a host.
\<close>

record externals =
  convertNumberToHex :: "jsval \<Rightarrow> jsval + jsval"
  JSON_parse :: "string \<Rightarrow> jsval option"
  JSON_stringify :: "request \<Rightarrow> string"
  toString :: "jsval \<Rightarrow> string"
  base64 :: "string \<Rightarrow> string"
  WalletConnect_restore :: "string \<Rightarrow> bool \<times> jsval"
  XHR_send_fails :: "string \<Rightarrow> bool"

section \<open>Primitive operations\<close>

definition emit :: "effect \<Rightarrow> state \<Rightarrow> state" where
  "emit x s = s\<lparr>effects := effects s @ [x]\<rparr>"

text \<open>\<^verbatim>\<open>h && h(args)\<close> for an optional hook.\<close>

definition call_hook :: "nat option \<Rightarrow> jsval list \<Rightarrow> state \<Rightarrow> state" where
  "call_hook h args s = (case h of None \<Rightarrow> s | Some f \<Rightarrow> emit (Hook f args) s)"

text \<open>
  Promises. \<open>new_promise\<close> allocates a pending promise; \<open>settle\<close> is a call of its
  \<^verbatim>\<open>resolve\<close> or \<^verbatim>\<open>reject\<close>: the first call fixes the outcome and queues one job for each
  waiting reaction, later calls do nothing. \<open>promise_then\<close> attaches a reaction: to
  the waiting list of a pending promise, or as a job when the promise has settled.
  An identity that denotes no object does not occur in the program; the operations
  leave the state as it is there.
\<close>

definition new_promise :: "state \<Rightarrow> pid \<times> state" where
  "new_promise s =
     (length (promises s),
      s\<lparr>promises := promises s @ [\<lparr>settled = None, reactions = []\<rparr>]\<rparr>)"

definition promise_resolve :: "jsval \<Rightarrow> state \<Rightarrow> pid \<times> state" where
  "promise_resolve v s =
     (length (promises s),
      s\<lparr>promises := promises s @ [\<lparr>settled = Some (Fulfilled v), reactions = []\<rparr>]\<rparr>)"

definition settle :: "pid \<Rightarrow> settlement \<Rightarrow> state \<Rightarrow> state" where
  "settle p st s =
     (if p < length (promises s) then
        (case settled (promises s ! p) of
           Some old \<Rightarrow> s
         | None \<Rightarrow>
             s\<lparr>promises := (promises s)[p := \<lparr>settled = Some st, reactions = []\<rparr>],
               jobs := jobs s @ map (\<lambda>k. (p, k)) (reactions (promises s ! p))\<rparr>)
      else s)"

definition promise_then :: "pid \<Rightarrow> reaction \<Rightarrow> state \<Rightarrow> state" where
  "promise_then p k s =
     (if p < length (promises s) then
        (case settled (promises s ! p) of
           Some st \<Rightarrow> s\<lparr>jobs := jobs s @ [(p, k)]\<rparr>
         | None \<Rightarrow>
             s\<lparr>promises :=
                 (promises s)[p := (promises s ! p)\<lparr>reactions := reactions (promises s ! p) @ [k]\<rparr>]\<rparr>)
      else s)"

definition settlement_of :: "state \<Rightarrow> pid \<Rightarrow> settlement option" where
  "settlement_of s p = (if p < length (promises s) then settled (promises s ! p) else None)"

text \<open>The reactions that will see the outcome of promise \<open>p\<close>: waiting or already queued.\<close>

definition observers :: "state \<Rightarrow> pid \<Rightarrow> reaction list" where
  "observers s p =
     (if p < length (promises s) then reactions (promises s ! p) else [])
     @ map snd (filter (\<lambda>j. fst j = p) (jobs s))"

definition conn :: "state \<Rightarrow> cid \<Rightarrow> connector option" where
  "conn s c = (if c < length (connectors s) then Some (connectors s ! c) else None)"

definition add_listener :: "cid \<Rightarrow> string \<Rightarrow> listener \<Rightarrow> state \<Rightarrow> state" where
  "add_listener c name l s =
     (case conn s c of
        None \<Rightarrow> s
      | Some k \<Rightarrow>
          emit (WC_on c name)
            (s\<lparr>connectors := (connectors s)[c := k\<lparr>wc_listeners := wc_listeners k @ [(name, l)]\<rparr>]\<rparr>))"

definition modal_open :: "string \<Rightarrow> provider \<Rightarrow> state \<Rightarrow> state" where
  "modal_open uri P s = emit (Modal_open uri) (s\<lparr>modal := Some (uri, P)\<rparr>)"

definition modal_close :: "state \<Rightarrow> state" where
  "modal_close s = emit Modal_close (s\<lparr>modal := None\<rparr>)"

text \<open>\<^verbatim>\<open>payload.params.push(v)\<close>: the request object of the caller is changed in place.\<close>

definition push_param :: "ref \<Rightarrow> jsval \<Rightarrow> state \<Rightarrow> state" where
  "push_param r v s =
     s\<lparr>heap := (heap s)(r := (heap s r)\<lparr>rq_params := rq_params (heap s r) @ [v]\<rparr>)\<rparr>"

section \<open>The functions of the module\<close>

text \<open>
  \<^verbatim>\<open>getCallback(payload, cb)\<close> applied to \<^verbatim>\<open>(err, result)\<close>: the response object copies
  \<^verbatim>\<open>id\<close> and \<^verbatim>\<open>jsonrpc\<close> from the request object as it is when the function runs.
\<close>

definition response :: "request \<Rightarrow> jsval \<Rightarrow> jsval" where
  "response rq result =
     Obj [(''id'', rq_id rq), (''jsonrpc'', rq_jsonrpc rq), (''result'', result)]"

definition getCallback :: "ref \<Rightarrow> cbid \<Rightarrow> jsval \<Rightarrow> jsval \<Rightarrow> state \<Rightarrow> state" where
  "getCallback r cb err result s = emit (Callback cb err (response (heap s r) result)) s"

text \<open>
  \<^verbatim>\<open>prepareRequest\<close>: a new XMLHttpRequest is opened and given its headers. A new
  XMLHttpRequest has \<^verbatim>\<open>timeout\<close> 0 and \<^verbatim>\<open>readyState\<close> 0, and \<^verbatim>\<open>open\<close> leaves it at
  \<^verbatim>\<open>readyState\<close> 1; the function assigns no other attribute.
\<close>

definition truthy_str :: "string option \<Rightarrow> bool" where
  "truthy_str x = (case x of None \<Rightarrow> False | Some s \<Rightarrow> s \<noteq> [])"

definition prepareRequest :: "externals \<Rightarrow> provider \<Rightarrow> bool \<Rightarrow> state \<Rightarrow> xid \<times> state" where
  "prepareRequest E P isAsync s =
     (let auth =
            (if truthy_str (user P) \<and> truthy_str (password P) then
               [(''Authorization'',
                 ''Basic '' @ base64 E ((case user P of None \<Rightarrow> [] | Some u \<Rightarrow> u) @ '':''
                    @ (case password P of None \<Rightarrow> [] | Some w \<Rightarrow> w)))]
             else []);
          extra = (case headers P of None \<Rightarrow> [] | Some hs \<Rightarrow> hs);
          request =
            \<lparr>xh_url = host P, xh_async = isAsync,
             xh_headers = auth @ [(''Content-Type'', ''application/json'')] @ extra,
             xh_timeout = 0, xh_readyState = 1, xh_responseText = [],
             xh_onreadystatechange = None, xh_ontimeout = None, xh_sent = None\<rparr>
      in (length (xhrs s), s\<lparr>xhrs := xhrs s @ [request]\<rparr>))"

text \<open>The handlers \<^verbatim>\<open>request.onreadystatechange\<close> and \<^verbatim>\<open>request.ontimeout\<close> of \<^verbatim>\<open>_sendAsync\<close>.\<close>

definition on_readystatechange :: "externals \<Rightarrow> xid \<Rightarrow> cbid \<Rightarrow> state \<Rightarrow> state" where
  "on_readystatechange E x cb s =
     (if x < length (xhrs s) then
        (let request = xhrs s ! x in
         if xh_readyState request = 4 \<and> xh_timeout request \<noteq> 1 then
           (case JSON_parse E (xh_responseText request) of
              Some result \<Rightarrow> emit (Callback cb Null result) s
            | None \<Rightarrow>
                emit (Callback cb (Err (''Invalid response '' @ xh_responseText request))
                        (Str (xh_responseText request))) s)
         else s)
      else s)"

definition on_timeout :: "externals \<Rightarrow> provider \<Rightarrow> cbid \<Rightarrow> state \<Rightarrow> state" where
  "on_timeout E P cb s =
     emit (Callback cb (Err (''Connection timeout '' @ toString E (Num (timeout P)))) Undefined) s"

text \<open>\<^verbatim>\<open>_sendAsync(payload, callback)\<close>.\<close>

definition sendAsync_http :: "externals \<Rightarrow> provider \<Rightarrow> ref \<Rightarrow> cbid \<Rightarrow> state \<Rightarrow> state" where
  "sendAsync_http E P r cb s =
     (let (x, s1) = prepareRequest E P True s;
          s2 = s1\<lparr>xhrs := (xhrs s1)[x := (xhrs s1 ! x)\<lparr>xh_onreadystatechange := Some cb,
                     xh_ontimeout := Some (P, cb)\<rparr>]\<rparr>
      in if XHR_send_fails E (host P) then
           emit (Callback cb (Err (''Invalid connection '' @ host P)) Undefined) s2
         else
           emit (XHR_send x (JSON_stringify E (heap s2 r)))
             (s2\<lparr>xhrs := (xhrs s2)[x := (xhrs s2 ! x)\<lparr>xh_sent :=
                      Some (JSON_stringify E (heap s2 r), now s2)\<rparr>]\<rparr>))"

text \<open>
  The listeners of \<^verbatim>\<open>createWebconnector\<close>. \<open>accounts_of payload\<close> is the destructuring
  \<^verbatim>\<open>const { accounts } = payload.params[0]\<close>.
\<close>

definition accounts_of :: "jsval \<Rightarrow> jsval + jsval" where
  "accounts_of payload = js_path payload [''params'', ''0'', ''accounts'']"

definition on_connect ::
  "provider \<Rightarrow> pid \<Rightarrow> jsval \<Rightarrow> jsval \<Rightarrow> state \<Rightarrow> completion \<times> state" where
  "on_connect P d error payload s =
     (if truthy error then (Normal, settle d (Rejected error) s)
      else
        (let s1 = call_hook (onConnect (callbacks P)) [error, payload] s;
             s2 = (if showQRCode P then modal_close s1 else s1)
         in case accounts_of payload of
              Inl e \<Rightarrow> (Throw e, s2)
            | Inr accounts \<Rightarrow> (Normal, settle d (Fulfilled accounts) s2)))"

definition on_disconnect ::
  "provider \<Rightarrow> jsval \<Rightarrow> jsval \<Rightarrow> state \<Rightarrow> completion \<times> state" where
  "on_disconnect P error payload s =
     (if truthy error then (Throw error, s)
      else
        (let s1 = call_hook (onDisconnect (callbacks P)) [error, payload] s
         in (Normal, if showQRCode P then modal_close s1 else s1)))"

definition on_session_update ::
  "provider \<Rightarrow> pid \<Rightarrow> jsval \<Rightarrow> jsval \<Rightarrow> state \<Rightarrow> completion \<times> state" where
  "on_session_update P R error payload s =
     (if truthy error then (Normal, settle R (Rejected error) s)
      else
        (let s1 = call_hook (onUpdate (callbacks P)) [error, payload] s
         in case accounts_of payload of
              Inl e \<Rightarrow> (Throw e, s1)
            | Inr accounts \<Rightarrow> (Normal, settle R (Fulfilled accounts) s1)))"

text \<open>The abort callback given to \<^verbatim>\<open>WalletConnectQRCodeModal.open\<close>.\<close>

definition qr_abort :: "provider \<Rightarrow> string \<Rightarrow> state \<Rightarrow> state" where
  "qr_abort P uri s =
     call_hook (onAbort (callbacks P)) [Str uri]
       (s\<lparr>webconnector := None, sessionPromise := None\<rparr>)"

text \<open>
  The two handlers on \<^verbatim>\<open>webconnector.createSession()\<close>. The \<^verbatim>\<open>then\<close> handler reads the
  global \<^verbatim>\<open>webconnector\<close>; should that be \<^verbatim>\<open>null\<close>, the TypeError is caught by the
  \<^verbatim>\<open>catch\<close> handler that follows it in the chain.
\<close>

definition createSession_catch :: "state \<Rightarrow> state" where
  "createSession_catch s = s\<lparr>webconnector := None, sessionPromise := None\<rparr>"

definition createSession_then :: "provider \<Rightarrow> pid \<Rightarrow> pid \<Rightarrow> state \<Rightarrow> state" where
  "createSession_then P d R s =
     (case (case webconnector s of None \<Rightarrow> None | Some c \<Rightarrow> conn s c) of
        None \<Rightarrow> createSession_catch s
      | Some k \<Rightarrow>
          (let uri = wc_uri k;
               s1 = call_hook (onCreate (callbacks P)) [Str uri] s;
               s2 = (if showQRCode P then modal_open uri P s1 else s1)
           in promise_then d (ForwardK R) s2))"

text \<open>
  \<^verbatim>\<open>createWebconnector\<close>. The promise of the \<^verbatim>\<open>async\<close> function takes the outcome of
  the promise its body returns; the two are one promise here.
\<close>

definition createWebconnector :: "externals \<Rightarrow> provider \<Rightarrow> state \<Rightarrow> pid \<times> state" where
  "createWebconnector E P s =
     (let c = length (connectors s);
          k = \<lparr>wc_bridge = bridgeURL P,
               wc_connected = fst (WalletConnect_restore E (bridgeURL P)),
               wc_session = snd (WalletConnect_restore E (bridgeURL P)),
               wc_uri = [], wc_listeners = []\<rparr>;
          s1 = emit (WC_new c (bridgeURL P))
                 (s\<lparr>connectors := connectors s @ [k], webconnector := Some c\<rparr>)
      in if \<not> wc_connected k then
           (let (d, s2) = new_promise s1;
                s3 = add_listener c ''connect'' (OnConnect P d) s2;
                s4 = add_listener c ''disconnect'' (OnDisconnect P) s3;
                (R, s5) = new_promise s4;
                s6 = emit (WC_createSession c (length (pending s5)))
                       (s5\<lparr>pending := pending s5 @ [Some (CreateSessionK P d R)]\<rparr>)
            in (R, s6))
         else
           (let (R, s2) = new_promise s1;
                accounts = js_and (wc_session k) (get_prop (wc_session k) ''accounts'')
            in if truthy (js_and accounts (get_prop accounts ''length'')) then
                 (R, settle R (Fulfilled accounts) s2)
               else (R, add_listener c ''session_update'' (OnSessionUpdate P R) s2)))"

text \<open>
  \<^verbatim>\<open>sendAsync(payload, callback)\<close>. The request is the object at address \<open>r\<close>. The
  function either throws (reading \<^verbatim>\<open>chainId\<close> of a missing first parameter, or inside
  \<^verbatim>\<open>convertNumberToHex\<close>; in both cases before \<^verbatim>\<open>push\<close> is called) or returns after
  attaching the rest of its work to the promise \<^verbatim>\<open>p\<close>.
\<close>

definition sendAsync ::
  "externals \<Rightarrow> provider \<Rightarrow> ref \<Rightarrow> cbid \<Rightarrow> state \<Rightarrow> completion \<times> state" where
  "sendAsync E P r cb s =
     (let (p0, s0) = promise_resolve (Arr []) s;
          m = rq_method (heap s0 r)
      in if m \<in> set supportedMethods then
           (let (p, s1) =
                  (case sessionPromise s0 of
                     None \<Rightarrow>
                       (let (q, t) = createWebconnector E P s0
                        in (q, t\<lparr>sessionPromise := Some q\<rparr>))
                   | Some q \<Rightarrow> (q, s0))
            in if m \<in> set walletconnectMethods then
                 (if m = ''eth_sendTransaction'' then
                    (case js_member (case rq_params (heap s1 r) of [] \<Rightarrow> Undefined | x # xs \<Rightarrow> x)
                            ''chainId'' of
                       Inl e \<Rightarrow> (Throw e, s1)
                     | Inr chainId \<Rightarrow>
                         (case convertNumberToHex E chainId of
                            Inl e \<Rightarrow> (Throw e, s1)
                          | Inr hex \<Rightarrow>
                              (Normal,
                               promise_then p (SigningK r cb) (push_param r hex s1))))
                  else (Normal, promise_then p (SigningK r cb) s1))
               else if m = ''eth_accounts'' then
                 (Normal, promise_then p (AccountsK r cb) s1)
               else (Normal, s1))
         else (Normal, promise_then p0 (PlainK P r cb) s0))"

definition isConnected :: "provider \<Rightarrow> state \<Rightarrow> bool" where
  "isConnected P s =
     (case webconnector s of
        None \<Rightarrow> False
      | Some c \<Rightarrow> (case conn s c of None \<Rightarrow> False | Some k \<Rightarrow> wc_connected k))"

definition disconnect :: "provider \<Rightarrow> state \<Rightarrow> state" where
  "disconnect P s =
     (case webconnector s of
        None \<Rightarrow> s
      | Some c \<Rightarrow>
          (case conn s c of
             None \<Rightarrow> s
           | Some k \<Rightarrow> if wc_connected k then emit (WC_killSession c) s else s))"

section \<open>Continuations and events\<close>

text \<open>
  What a reaction does once the promise it waits on has settled.
  \<^item> \<open>ForwardK R\<close> passes the outcome of \<^verbatim>\<open>d\<close> to the returned promise.
  \<^item> \<open>SigningK r cb\<close>: on success \<^verbatim>\<open>webconnector.sendCustomRequest(payload)\<close> is called
    on the global connector (a TypeError when it is \<^verbatim>\<open>null\<close>, which the \<^verbatim>\<open>catch\<close> of the
    chain turns into \<^verbatim>\<open>fn(err, null)\<close>); on failure \<^verbatim>\<open>fn(err, null)\<close>.
  \<^item> \<open>AccountsK r cb\<close>: on success the accounts of the current session, or \<^verbatim>\<open>[]\<close>; on
    failure \<^verbatim>\<open>getCallback(payload, callback)\<close> is the \<^verbatim>\<open>catch\<close> handler itself and gets
    the error as its only argument.
  \<^item> \<open>PlainK P r cb\<close>: \<^verbatim>\<open>this._sendAsync(payload, callback)\<close>, or the \<^verbatim>\<open>catch\<close> handler.
\<close>

definition current_accounts :: "state \<Rightarrow> jsval" where
  "current_accounts s =
     (case (case webconnector s of None \<Rightarrow> None | Some c \<Rightarrow> conn s c) of
        None \<Rightarrow> Null
      | Some k \<Rightarrow> if truthy (wc_session k) then get_prop (wc_session k) ''accounts'' else Null)"

fun run_reaction :: "externals \<Rightarrow> reaction \<Rightarrow> settlement \<Rightarrow> state \<Rightarrow> state" where
  "run_reaction E (ForwardK R) st s = settle R st s"
| "run_reaction E (SigningK r cb) (Fulfilled v) s =
     (case (case webconnector s of None \<Rightarrow> None
            | Some c \<Rightarrow> (case conn s c of None \<Rightarrow> None | Some k \<Rightarrow> Some c)) of
        None \<Rightarrow> getCallback r cb (Err ''TypeError'') Null s
      | Some c \<Rightarrow>
          emit (WC_sendCustomRequest c r (length (pending s)))
            (s\<lparr>pending := pending s @ [Some (CustomRequestK r cb)]\<rparr>))"
| "run_reaction E (SigningK r cb) (Rejected e) s = getCallback r cb e Null s"
| "run_reaction E (AccountsK r cb) (Fulfilled v) s =
     getCallback r cb Null (js_or (current_accounts s) (Arr [])) s"
| "run_reaction E (AccountsK r cb) (Rejected e) s = getCallback r cb e Undefined s"
| "run_reaction E (PlainK P r cb) (Fulfilled v) s = sendAsync_http E P r cb s"
| "run_reaction E (PlainK P r cb) (Rejected e) s =
     emit (Callback cb (Err (''Invalid connection '' @ toString E e)) Undefined) s"

definition run_listener ::
  "listener \<Rightarrow> jsval \<Rightarrow> jsval \<Rightarrow> state \<Rightarrow> completion \<times> state" where
  "run_listener l error payload s =
     (case l of
        OnConnect P d \<Rightarrow> on_connect P d error payload s
      | OnDisconnect P \<Rightarrow> on_disconnect P error payload s
      | OnSessionUpdate P R \<Rightarrow> on_session_update P R error payload s)"

text \<open>
  The emitter calls the listeners of an event in the order of their registration; an
  exception that leaves a listener reaches the emitter and ends the delivery.
\<close>

fun deliver :: "listener list \<Rightarrow> jsval \<Rightarrow> jsval \<Rightarrow> state \<Rightarrow> state" where
  "deliver [] error payload s = s"
| "deliver (l # ls) error payload s =
     (case run_listener l error payload s of
        (Throw e, s1) \<Rightarrow> emit (Uncaught e) s1
      | (Normal, s1) \<Rightarrow> deliver ls error payload s1)"

text \<open>
  The stimuli of the environment.
  \<^item> \<open>Call_sendAsync\<close>, \<open>Call_disconnect\<close>: a caller invokes a method of a provider;
  \<^item> \<open>Microtask\<close>: the first job of the microtask queue runs;
  \<^item> \<open>WcAttrs\<close>: the pairing library changes the \<^verbatim>\<open>connected\<close>, \<^verbatim>\<open>session\<close> and
    \<^verbatim>\<open>uri\<close> attributes of a connector; \<open>WcEmit\<close>: it emits an event with
    \<^verbatim>\<open>(error, payload)\<close>;
  \<^item> \<open>CreateSession...\<close>, \<open>CustomRequest...\<close>: a promise of the pairing library settles;
  \<^item> \<open>QrAbort\<close>: the open QR-code modal is dismissed and calls its abort callback;
  \<^item> \<open>XhrStateChange\<close>: an XMLHttpRequest changes \<^verbatim>\<open>readyState\<close> and \<^verbatim>\<open>responseText\<close>;
    \<open>XhrTimeout\<close>: its timeout fires, which the platform does only for a request that
    was sent with a \<^verbatim>\<open>timeout\<close> attribute other than 0, once that time has passed;
  \<^item> \<open>Advance\<close>: time passes.
\<close>

datatype event =
    Call_sendAsync provider ref cbid
  | Call_disconnect provider
  | Microtask
  | WcAttrs cid bool jsval string
  | WcEmit cid string jsval jsval
  | CreateSessionResolved eid
  | CreateSessionRejected eid jsval
  | CustomRequestResolved eid jsval
  | CustomRequestRejected eid jsval
  | QrAbort
  | XhrStateChange xid nat string
  | XhrTimeout xid
  | Advance nat

definition take_pending :: "eid \<Rightarrow> state \<Rightarrow> extcont option" where
  "take_pending e s = (if e < length (pending s) then pending s ! e else None)"

definition clear_pending :: "eid \<Rightarrow> state \<Rightarrow> state" where
  "clear_pending e s = s\<lparr>pending := (pending s)[e := None]\<rparr>"

definition timeout_due :: "state \<Rightarrow> xhr \<Rightarrow> bool" where
  "timeout_due s x =
     (case xh_sent x of
        None \<Rightarrow> False
      | Some (body, t0) \<Rightarrow> 0 < xh_timeout x \<and> int t0 + xh_timeout x \<le> int (now s))"

fun step :: "externals \<Rightarrow> event \<Rightarrow> state \<Rightarrow> state" where
  "step E (Call_sendAsync P r cb) s = snd (sendAsync E P r cb s)"
| "step E (Call_disconnect P) s = disconnect P s"
| "step E Microtask s =
     (case jobs s of
        [] \<Rightarrow> s
      | (p, k) # js \<Rightarrow>
          (case settlement_of s p of
             None \<Rightarrow> s\<lparr>jobs := js\<rparr>
           | Some st \<Rightarrow> run_reaction E k st (s\<lparr>jobs := js\<rparr>)))"
| "step E (WcAttrs c connected session uri) s =
     (case conn s c of
        None \<Rightarrow> s
      | Some k \<Rightarrow>
          s\<lparr>connectors := (connectors s)[c := k\<lparr>wc_connected := connected,
                wc_session := session, wc_uri := uri\<rparr>]\<rparr>)"
| "step E (WcEmit c name error payload) s =
     (case conn s c of
        None \<Rightarrow> s
      | Some k \<Rightarrow>
          deliver (map snd (filter (\<lambda>nl. fst nl = name) (wc_listeners k))) error payload s)"
| "step E (CreateSessionResolved e) s =
     (case take_pending e s of
        Some (CreateSessionK P d R) \<Rightarrow> createSession_then P d R (clear_pending e s)
      | _ \<Rightarrow> s)"
| "step E (CreateSessionRejected e err) s =
     (case take_pending e s of
        Some (CreateSessionK P d R) \<Rightarrow> createSession_catch (clear_pending e s)
      | _ \<Rightarrow> s)"
| "step E (CustomRequestResolved e result) s =
     (case take_pending e s of
        Some (CustomRequestK r cb) \<Rightarrow> getCallback r cb Null result (clear_pending e s)
      | _ \<Rightarrow> s)"
| "step E (CustomRequestRejected e err) s =
     (case take_pending e s of
        Some (CustomRequestK r cb) \<Rightarrow> getCallback r cb err Null (clear_pending e s)
      | _ \<Rightarrow> s)"
| "step E QrAbort s =
     (case modal s of
        None \<Rightarrow> s
      | Some (uri, P) \<Rightarrow> qr_abort P uri (s\<lparr>modal := None\<rparr>))"
| "step E (XhrStateChange x rs text) s =
     (if x < length (xhrs s) then
        (let s1 = s\<lparr>xhrs := (xhrs s)[x := (xhrs s ! x)\<lparr>xh_readyState := rs,
                      xh_responseText := text\<rparr>]\<rparr>
         in case xh_onreadystatechange (xhrs s ! x) of
              None \<Rightarrow> s1
            | Some cb \<Rightarrow> on_readystatechange E x cb s1)
      else s)"
| "step E (XhrTimeout x) s =
     (if x < length (xhrs s) \<and> timeout_due s (xhrs s ! x) then
        (case xh_ontimeout (xhrs s ! x) of
           None \<Rightarrow> s
         | Some (P, cb) \<Rightarrow> on_timeout E P cb s)
      else s)"
| "step E (Advance n) s = s\<lparr>now := now s + n\<rparr>"

fun run :: "externals \<Rightarrow> event list \<Rightarrow> state \<Rightarrow> state" where
  "run E [] s = s"
| "run E (e # es) s = run E es (step E e s)"

text \<open>The number of negotiations started: one \<^verbatim>\<open>new WalletConnect\<close> per call of
  \<^verbatim>\<open>createWebconnector\<close>.\<close>

fun is_WC_new :: "effect \<Rightarrow> bool" where
  "is_WC_new (WC_new c b) = True"
| "is_WC_new x = False"

definition negotiations :: "state \<Rightarrow> nat" where
  "negotiations s = length (filter is_WC_new (effects s))"

fun is_Callback :: "effect \<Rightarrow> bool" where
  "is_Callback (Callback cb e v) = True"
| "is_Callback x = False"

text \<open>The state of a freshly loaded module, given the request objects of the callers.\<close>

definition init :: "(ref \<Rightarrow> request) \<Rightarrow> state" where
  "init h =
     \<lparr>sessionPromise = None, webconnector = None, heap = h, promises = [], jobs = [],
      connectors = [], pending = [], xhrs = [], modal = None, now = 0, effects = []\<rparr>"

section \<open>Traces: what an event may change\<close>

text \<open>
  \<open>same_globals s t\<close>: from \<open>s\<close> to \<open>t\<close> the two module variables, the request
  objects, the number of connectors built, and the bridge and listeners of every
  connector are unchanged. \<open>weak\<close> allows in addition that both module variables were
  set to \<^verbatim>\<open>null\<close>.
\<close>

definition same_globals :: "state \<Rightarrow> state \<Rightarrow> bool" where
  "same_globals s t =
     (sessionPromise t = sessionPromise s \<and> webconnector t = webconnector s \<and>
      heap t = heap s \<and>
      filter is_WC_new (effects t) = filter is_WC_new (effects s) \<and>
      length (promises t) = length (promises s) \<and>
      length (connectors t) = length (connectors s) \<and>
      (\<forall>c. wc_bridge (connectors t ! c) = wc_bridge (connectors s ! c) \<and>
           wc_listeners (connectors t ! c) = wc_listeners (connectors s ! c)))"

definition weak :: "state \<Rightarrow> state \<Rightarrow> bool" where
  "weak s t =
     (heap t = heap s \<and>
      filter is_WC_new (effects t) = filter is_WC_new (effects s) \<and>
      length (promises t) = length (promises s) \<and>
      length (connectors t) = length (connectors s) \<and>
      (\<forall>c. wc_bridge (connectors t ! c) = wc_bridge (connectors s ! c) \<and>
           wc_listeners (connectors t ! c) = wc_listeners (connectors s ! c)) \<and>
      (sessionPromise t = sessionPromise s \<and> webconnector t = webconnector s \<or>
       sessionPromise t = None \<and> webconnector t = None))"

text \<open>
  The two events that end a negotiation without settling its promise: the abort of the
  QR-code modal and the failure of \<^verbatim>\<open>createSession()\<close>. Both run a closure that sets
  \<^verbatim>\<open>sessionPromise\<close> and \<^verbatim>\<open>webconnector\<close> to \<^verbatim>\<open>null\<close>.
\<close>

fun clearing :: "event \<Rightarrow> bool" where
  "clearing QrAbort = True"
| "clearing (CreateSessionRejected e err) = True"
| "clearing ev = False"

fun is_call :: "event \<Rightarrow> bool" where
  "is_call (Call_sendAsync P r cb) = True"
| "is_call ev = False"

text \<open>A call of \<^verbatim>\<open>sendAsync\<close> whose method is in \<^verbatim>\<open>supportedMethods\<close>, and the reaction
  such a call attaches to the session promise.\<close>

fun session_call :: "state \<Rightarrow> event \<Rightarrow> bool" where
  "session_call s (Call_sendAsync P r cb) = (rq_method (heap s r) \<in> set supportedMethods)"
| "session_call s ev = False"

definition session_reaction :: "string \<Rightarrow> ref \<Rightarrow> cbid \<Rightarrow> reaction" where
  "session_reaction m r cb =
     (if m \<in> set walletconnectMethods then SigningK r cb else AccountsK r cb)"

fun listener_provider :: "listener \<Rightarrow> provider" where
  "listener_provider (OnConnect P d) = P"
| "listener_provider (OnDisconnect P) = P"
| "listener_provider (OnSessionUpdate P R) = P"

text \<open>
  \<open>holds c p n s\<close>: in \<open>s\<close> the session promise is \<open>p\<close>, the connector is \<open>c\<close>, both are
  objects of the state, and \<open>n\<close> negotiations have been started.
\<close>

definition holds :: "cid \<Rightarrow> pid \<Rightarrow> nat \<Rightarrow> state \<Rightarrow> bool" where
  "holds c p n s =
     (sessionPromise s = Some p \<and> webconnector s = Some c \<and>
      c < length (connectors s) \<and> p < length (promises s) \<and> negotiations s = n)"

section \<open>A concrete scenario\<close>

text \<open>
  Two providers with different bridges and hooks, six request objects, and stand-ins for
  the external functions, to run the module on. The stand-in for \<^verbatim>\<open>convertNumberToHex\<close>
  writes a number that is not negative with an even number of hexadecimal digits and
  throws for every other value.
\<close>

definition hex_digit :: "nat \<Rightarrow> char" where
  "hex_digit d = ''0123456789abcdef'' ! (d mod 16)"

fun hex_digits :: "nat \<Rightarrow> string" where
  "hex_digits n =
     (if n < 16 then [hex_digit n] else hex_digits (n div 16) @ [hex_digit (n mod 16)])"

declare hex_digits.simps [simp del]

definition demo_hex :: "jsval \<Rightarrow> jsval + jsval" where
  "demo_hex v =
     (case v of
        Num n \<Rightarrow>
          if 0 \<le> n then
            Inr (Str (''0x'' @ (if even (length (hex_digits (nat n))) then [] else ''0'')
                      @ hex_digits (nat n)))
          else Inl (Err ''invalid hexlify value'')
      | _ \<Rightarrow> Inl (Err ''invalid hexlify value''))"

definition demo_externals :: externals where
  "demo_externals =
     \<lparr>convertNumberToHex = demo_hex,
      JSON_parse = (\<lambda>t. if t = ''{}'' then Some (Obj []) else None),
      JSON_stringify = (\<lambda>rq. rq_method rq),
      toString = (\<lambda>v. case v of Str s \<Rightarrow> s | Num n \<Rightarrow> (if n = 5000 then ''5000'' else ''0'') | _ \<Rightarrow> ''[object]''),
      base64 = (\<lambda>s. s),
      WalletConnect_restore = (\<lambda>b. (False, Null)),
      XHR_send_fails = (\<lambda>h. False)\<rparr>"

definition demo_provider :: provider where
  "demo_provider =
     WalletConnectProvider
       \<lparr>o_host = None, o_timeout = Some 5000, o_user = None, o_password = None,
        o_headers = None, o_bridgeURL = None, o_showQRCode = None,
        o_callbacks = Some \<lparr>onConnect = Some 1, onCreate = Some 2, onAbort = Some 3,
          onUpdate = Some 4, onDisconnect = Some 5\<rparr>\<rparr>"

definition other_provider :: provider where
  "other_provider =
     WalletConnectProvider
       \<lparr>o_host = None, o_timeout = None, o_user = None, o_password = None,
        o_headers = None, o_bridgeURL = Some ''https://bridge.example.org'',
        o_showQRCode = Some False,
        o_callbacks = Some \<lparr>onConnect = Some 21, onCreate = Some 22, onAbort = Some 23,
          onUpdate = Some 24, onDisconnect = Some 25\<rparr>\<rparr>"

definition demo_heap :: "ref \<Rightarrow> request" where
  "demo_heap r =
     (if r = 0 then
        \<lparr>rq_id = Num 1, rq_jsonrpc = Str ''2.0'', rq_method = ''eth_blockNumber'', rq_params = []\<rparr>
      else if r = 1 then
        \<lparr>rq_id = Num 2, rq_jsonrpc = Str ''2.0'', rq_method = ''eth_accounts'', rq_params = []\<rparr>
      else if r = 2 then
        \<lparr>rq_id = Num 3, rq_jsonrpc = Str ''2.0'', rq_method = ''eth_sendTransaction'',
         rq_params = [Obj [(''chainId'', Num 1)]]\<rparr>
      else if r = 4 then
        \<lparr>rq_id = Num 5, rq_jsonrpc = Str ''2.0'', rq_method = ''eth_sendTransaction'',
         rq_params = [Obj [(''from'', Str ''0xabc'')]]\<rparr>
      else if r = 5 then
        \<lparr>rq_id = Num 6, rq_jsonrpc = Str ''2.0'', rq_method = ''eth_sendTransaction'',
         rq_params = []\<rparr>
      else
        \<lparr>rq_id = Num 4, rq_jsonrpc = Str ''2.0'', rq_method = ''eth_sign'', rq_params = []\<rparr>)"

definition demo_session :: jsval where
  "demo_session = Obj [(''accounts'', Arr [Str ''0xabc''])]"

definition demo_payload :: jsval where
  "demo_payload = Obj [(''params'', Arr [demo_session])]"

text \<open>
  A wallet pairs with the first provider: \<^verbatim>\<open>eth_sign\<close> is dispatched, the pairing
  library creates the session and publishes its URI, the wallet approves, and the
  microtasks run.
\<close>

definition negotiating :: state where
  "negotiating =
     run demo_externals
       [Call_sendAsync demo_provider 3 11, WcAttrs 0 False Null ''wc:1'',
        CreateSessionResolved 0]
       (init demo_heap)"

definition established :: state where
  "established =
     run demo_externals
       [WcAttrs 0 True demo_session ''wc:1'', WcEmit 0 ''connect'' Null demo_payload,
        Microtask, Microtask]
       negotiating"


text \<open>
  Three dispatches that need a session, from two providers, around the creation of the
  session.
\<close>

definition demo_calls :: "event list" where
  "demo_calls =
     [Call_sendAsync demo_provider 1 10, Call_sendAsync other_provider 3 11,
      WcAttrs 0 False Null ''wc:1'', CreateSessionResolved 0,
      Call_sendAsync demo_provider 2 12, Microtask]"

section \<open>Frame lemmas\<close>

text \<open>The defining equations of the model, for evaluating it on the scenario.\<close>

lemmas model_defs = emit_def call_hook_def new_promise_def promise_resolve_def settle_def
  promise_then_def add_listener_def modal_open_def modal_close_def push_param_def
  getCallback_def conn_def response_def prepareRequest_def truthy_str_def on_readystatechange_def
  on_timeout_def sendAsync_http_def accounts_of_def on_connect_def on_disconnect_def
  on_session_update_def qr_abort_def createSession_catch_def createSession_then_def
  createWebconnector_def sendAsync_def isConnected_def disconnect_def current_accounts_def
  run_listener_def take_pending_def clear_pending_def timeout_due_def settlement_of_def
  observers_def js_and_def js_or_def get_prop_def supportedMethods_def walletconnectMethods_def
  WalletConnectProvider_def no_hooks_def init_def negotiations_def
  demo_externals_def demo_provider_def demo_heap_def Let_def

lemma emit_fields [simp]:
  "sessionPromise (emit x s) = sessionPromise s"
  "webconnector (emit x s) = webconnector s"
  "heap (emit x s) = heap s"
  "promises (emit x s) = promises s"
  "jobs (emit x s) = jobs s"
  "connectors (emit x s) = connectors s"
  "pending (emit x s) = pending s"
  "xhrs (emit x s) = xhrs s"
  "modal (emit x s) = modal s"
  "now (emit x s) = now s"
  "effects (emit x s) = effects s @ [x]"
  by (simp_all add: emit_def)

lemma conn_emit [simp]: "conn (emit x s) c = conn s c"
  by (simp add: conn_def)

lemma call_hook_fields [simp]:
  "sessionPromise (call_hook h a s) = sessionPromise s"
  "webconnector (call_hook h a s) = webconnector s"
  "heap (call_hook h a s) = heap s"
  "promises (call_hook h a s) = promises s"
  "jobs (call_hook h a s) = jobs s"
  "connectors (call_hook h a s) = connectors s"
  "pending (call_hook h a s) = pending s"
  "xhrs (call_hook h a s) = xhrs s"
  "modal (call_hook h a s) = modal s"
  "effects (call_hook h a s) = effects s @ (case h of None \<Rightarrow> [] | Some f \<Rightarrow> [Hook f a])"
  by (simp_all add: call_hook_def split: option.splits)

lemma settle_fields [simp]:
  "sessionPromise (settle p st s) = sessionPromise s"
  "webconnector (settle p st s) = webconnector s"
  "heap (settle p st s) = heap s"
  "connectors (settle p st s) = connectors s"
  "pending (settle p st s) = pending s"
  "xhrs (settle p st s) = xhrs s"
  "modal (settle p st s) = modal s"
  "effects (settle p st s) = effects s"
  "length (promises (settle p st s)) = length (promises s)"
  by (simp_all add: settle_def split: option.splits)

lemma promise_then_fields [simp]:
  "sessionPromise (promise_then p k s) = sessionPromise s"
  "webconnector (promise_then p k s) = webconnector s"
  "heap (promise_then p k s) = heap s"
  "connectors (promise_then p k s) = connectors s"
  "pending (promise_then p k s) = pending s"
  "xhrs (promise_then p k s) = xhrs s"
  "modal (promise_then p k s) = modal s"
  "effects (promise_then p k s) = effects s"
  "length (promises (promise_then p k s)) = length (promises s)"
  by (simp_all add: promise_then_def split: option.splits)

lemma modal_close_fields [simp]:
  "sessionPromise (modal_close s) = sessionPromise s"
  "webconnector (modal_close s) = webconnector s"
  "heap (modal_close s) = heap s"
  "promises (modal_close s) = promises s"
  "jobs (modal_close s) = jobs s"
  "connectors (modal_close s) = connectors s"
  "pending (modal_close s) = pending s"
  "xhrs (modal_close s) = xhrs s"
  "effects (modal_close s) = effects s @ [Modal_close]"
  by (simp_all add: modal_close_def)

lemma modal_open_fields [simp]:
  "sessionPromise (modal_open u P s) = sessionPromise s"
  "webconnector (modal_open u P s) = webconnector s"
  "heap (modal_open u P s) = heap s"
  "promises (modal_open u P s) = promises s"
  "jobs (modal_open u P s) = jobs s"
  "connectors (modal_open u P s) = connectors s"
  "pending (modal_open u P s) = pending s"
  "xhrs (modal_open u P s) = xhrs s"
  "effects (modal_open u P s) = effects s @ [Modal_open u]"
  by (simp_all add: modal_open_def)

lemma getCallback_fields [simp]:
  "sessionPromise (getCallback r cb e v s) = sessionPromise s"
  "webconnector (getCallback r cb e v s) = webconnector s"
  "heap (getCallback r cb e v s) = heap s"
  "promises (getCallback r cb e v s) = promises s"
  "jobs (getCallback r cb e v s) = jobs s"
  "connectors (getCallback r cb e v s) = connectors s"
  "pending (getCallback r cb e v s) = pending s"
  "xhrs (getCallback r cb e v s) = xhrs s"
  "effects (getCallback r cb e v s) = effects s @ [Callback cb e (response (heap s r) v)]"
  by (simp_all add: getCallback_def)

lemma sendAsync_http_fields [simp]:
  "sessionPromise (sendAsync_http E P r cb s) = sessionPromise s"
  "webconnector (sendAsync_http E P r cb s) = webconnector s"
  "heap (sendAsync_http E P r cb s) = heap s"
  "promises (sendAsync_http E P r cb s) = promises s"
  "jobs (sendAsync_http E P r cb s) = jobs s"
  "connectors (sendAsync_http E P r cb s) = connectors s"
  "pending (sendAsync_http E P r cb s) = pending s"
  by (simp_all add: sendAsync_http_def prepareRequest_def Let_def)

lemma new_promise_fields [simp]:
  "fst (new_promise s) = length (promises s)"
  "sessionPromise (snd (new_promise s)) = sessionPromise s"
  "webconnector (snd (new_promise s)) = webconnector s"
  "heap (snd (new_promise s)) = heap s"
  "jobs (snd (new_promise s)) = jobs s"
  "connectors (snd (new_promise s)) = connectors s"
  "pending (snd (new_promise s)) = pending s"
  "xhrs (snd (new_promise s)) = xhrs s"
  "modal (snd (new_promise s)) = modal s"
  "effects (snd (new_promise s)) = effects s"
  "promises (snd (new_promise s)) = promises s @ [\<lparr>settled = None, reactions = []\<rparr>]"
  by (simp_all add: new_promise_def)

lemma promise_resolve_fields [simp]:
  "fst (promise_resolve v s) = length (promises s)"
  "sessionPromise (snd (promise_resolve v s)) = sessionPromise s"
  "webconnector (snd (promise_resolve v s)) = webconnector s"
  "heap (snd (promise_resolve v s)) = heap s"
  "jobs (snd (promise_resolve v s)) = jobs s"
  "connectors (snd (promise_resolve v s)) = connectors s"
  "pending (snd (promise_resolve v s)) = pending s"
  "xhrs (snd (promise_resolve v s)) = xhrs s"
  "modal (snd (promise_resolve v s)) = modal s"
  "effects (snd (promise_resolve v s)) = effects s"
  "promises (snd (promise_resolve v s)) = promises s @ [\<lparr>settled = Some (Fulfilled v), reactions = []\<rparr>]"
  by (simp_all add: promise_resolve_def)

lemma add_listener_fields [simp]:
  "sessionPromise (add_listener c n l s) = sessionPromise s"
  "webconnector (add_listener c n l s) = webconnector s"
  "heap (add_listener c n l s) = heap s"
  "promises (add_listener c n l s) = promises s"
  "jobs (add_listener c n l s) = jobs s"
  "pending (add_listener c n l s) = pending s"
  "xhrs (add_listener c n l s) = xhrs s"
  "modal (add_listener c n l s) = modal s"
  "length (connectors (add_listener c n l s)) = length (connectors s)"
  "effects (add_listener c n l s) = effects s @ (if c < length (connectors s) then [WC_on c n] else [])"
  by (simp_all add: add_listener_def conn_def)

lemma add_listener_bridge [simp]:
  "wc_bridge (connectors (add_listener c n l s) ! c') = wc_bridge (connectors s ! c')"
  by (cases "c' = c") (simp_all add: add_listener_def conn_def)

lemma createWebconnector_globals:
  "sessionPromise (snd (createWebconnector E P s)) = sessionPromise s"
  "webconnector (snd (createWebconnector E P s)) = Some (length (connectors s))"
  "heap (snd (createWebconnector E P s)) = heap s"
  "negotiations (snd (createWebconnector E P s)) = Suc (negotiations s)"
  "length (connectors (snd (createWebconnector E P s))) = Suc (length (connectors s))"
  by (simp_all add: createWebconnector_def Let_def split_beta negotiations_def)

lemma createWebconnector_effects:
  "filter is_WC_new (effects (snd (createWebconnector E P s))) =
     filter is_WC_new (effects s) @ [WC_new (length (connectors s)) (bridgeURL P)]"
  by (simp add: createWebconnector_def Let_def split_beta)

lemma createWebconnector_fresh:
  "length (promises s) \<le> fst (createWebconnector E P s)"
  "fst (createWebconnector E P s) < length (promises (snd (createWebconnector E P s)))"
  by (simp_all add: createWebconnector_def Let_def split_beta)

lemma same_globals_refl [simp]: "same_globals s s"
  by (simp add: same_globals_def)

lemma same_globals_trans: "same_globals s t \<Longrightarrow> same_globals t u \<Longrightarrow> same_globals s u"
  by (simp add: same_globals_def)

lemma same_globals_prims [simp]:
  "\<not> is_WC_new x \<Longrightarrow> same_globals s (emit x s)"
  "same_globals s (call_hook h a s)"
  "same_globals s (settle p st s)"
  "same_globals s (promise_then p k s)"
  "same_globals s (modal_close s)"
  "same_globals s (modal_open u P s)"
  "same_globals s (getCallback r cb e v s)"
  "same_globals s (sendAsync_http E P r cb s)"
  "same_globals s (clear_pending n s)"
  by (simp_all add: same_globals_def clear_pending_def sendAsync_http_def prepareRequest_def
      Let_def split: option.splits)

lemma on_connect_same: "same_globals s (snd (on_connect P d err pl s))"
  by (simp add: same_globals_def on_connect_def Let_def split: sum.splits option.splits)

lemma on_disconnect_same: "same_globals s (snd (on_disconnect P err pl s))"
  by (simp add: same_globals_def on_disconnect_def Let_def split: sum.splits option.splits)

lemma on_session_update_same: "same_globals s (snd (on_session_update P R err pl s))"
  by (simp add: same_globals_def on_session_update_def Let_def split: sum.splits option.splits)

lemma run_listener_same: "same_globals s (snd (run_listener l err pl s))"
  by (cases l) (simp_all add: run_listener_def on_connect_same on_disconnect_same
      on_session_update_same)

lemma deliver_same: "same_globals s (deliver ls err pl s)"
proof (induction ls arbitrary: s)
  case Nil
  show ?case by simp
next
  case (Cons l ls)
  obtain c s1 where r: "run_listener l err pl s = (c, s1)"
    by (cases "run_listener l err pl s")
  have a: "same_globals s s1"
    using run_listener_same [of s l err pl] r by simp
  show ?case
  proof (cases c)
    case Normal
    then show ?thesis
      using r a Cons.IH [of s1] by (auto intro: same_globals_trans)
  next
    case (Throw e)
    have "same_globals s1 (emit (Uncaught e) s1)" by simp
    then show ?thesis
      using r a Throw by (auto intro: same_globals_trans)
  qed
qed

lemma sendAsync_http_effects [simp]:
  "filter is_WC_new (effects (sendAsync_http E P r cb s)) = filter is_WC_new (effects s)"
  "length (xhrs (sendAsync_http E P r cb s)) = Suc (length (xhrs s))"
  by (simp_all add: sendAsync_http_def prepareRequest_def Let_def)

lemma run_reaction_same: "same_globals s (run_reaction E k st s)"
  by (cases k; cases st)
     (simp_all add: same_globals_def split: option.splits)

lemma createSession_then_same:
  "webconnector s = Some c \<Longrightarrow> c < length (connectors s) \<Longrightarrow>
   same_globals s (createSession_then P d R s)"
  by (simp add: createSession_then_def conn_def same_globals_def Let_def split: option.splits)

lemma sg_run_reaction: "same_globals s t \<Longrightarrow> same_globals s (run_reaction E k st t)"
  by (blast intro: same_globals_trans run_reaction_same)

lemma sg_getCallback: "same_globals s t \<Longrightarrow> same_globals s (getCallback r cb e v t)"
  by (blast intro: same_globals_trans same_globals_prims(7))

lemma step_same:
  assumes "\<not> clearing e" and "\<not> is_call e"
    and "(\<exists>n. e = CreateSessionResolved n) \<longrightarrow>
         (\<exists>c. webconnector s = Some c \<and> c < length (connectors s))"
  shows "same_globals s (step E e s)"
proof (cases e)
  case (Call_sendAsync P r cb)
  then show ?thesis using assms by simp
next
  case (Call_disconnect P)
  then show ?thesis by (simp add: disconnect_def split: option.splits)
next
  case Microtask
  have a: "\<And>js. same_globals s (s\<lparr>jobs := js\<rparr>)" by (simp add: same_globals_def)
  show ?thesis
    using Microtask a
    by (auto split: list.splits option.splits intro: sg_run_reaction)
next
  case (WcAttrs c' b v u)
  then show ?thesis
    by (auto simp: same_globals_def conn_def nth_list_update)
next
  case (WcEmit c' n err pl)
  then show ?thesis by (simp add: deliver_same split: option.splits)
next
  case (CreateSessionResolved n)
  have a: "same_globals s (clear_pending n s)" by simp
  obtain c where c: "webconnector s = Some c" "c < length (connectors s)"
    using assms(3) CreateSessionResolved by auto
  have b: "\<And>P d R. same_globals (clear_pending n s) (createSession_then P d R (clear_pending n s))"
    using c by (intro createSession_then_same [of _ c]) (simp_all add: clear_pending_def)
  show ?thesis
    using CreateSessionResolved a b
    by (auto split: option.splits extcont.splits intro: same_globals_trans [OF a])
next
  case (CreateSessionRejected n err)
  then show ?thesis using assms by simp
next
  case (CustomRequestResolved n v)
  have a: "same_globals s (clear_pending n s)" by simp
  show ?thesis
    using CustomRequestResolved a
    by (auto split: option.splits extcont.splits intro: sg_getCallback)
next
  case (CustomRequestRejected n v)
  have a: "same_globals s (clear_pending n s)" by simp
  show ?thesis
    using CustomRequestRejected a
    by (auto split: option.splits extcont.splits intro: sg_getCallback)
next
  case QrAbort
  then show ?thesis using assms by simp
next
  case (XhrStateChange x rs body)
  then show ?thesis
    by (simp add: same_globals_def on_readystatechange_def Let_def split: option.splits)
next
  case (XhrTimeout x)
  then show ?thesis
    by (simp add: same_globals_def on_timeout_def split: option.splits prod.splits)
next
  case (Advance n)
  then show ?thesis by (simp add: same_globals_def)
qed

lemma same_globals_weak: "same_globals s t \<Longrightarrow> weak s t"
  by (simp add: same_globals_def weak_def)

lemma createSession_then_weak: "weak s (createSession_then P d R s)"
  by (simp add: createSession_then_def createSession_catch_def conn_def weak_def Let_def
      split: option.splits)

lemma weak_clear_pending:
  "weak (clear_pending n s) t \<Longrightarrow> weak s t"
  by (simp add: weak_def clear_pending_def)

lemma step_weak:
  assumes "\<not> is_call e"
  shows "weak s (step E e s)"
proof (cases e)
  case (CreateSessionResolved n)
  then show ?thesis
    by (auto split: option.splits extcont.splits
        intro: weak_clear_pending createSession_then_weak same_globals_weak)
next
  case (CreateSessionRejected n err)
  then show ?thesis
    by (auto simp: weak_def createSession_catch_def clear_pending_def
        split: option.splits extcont.splits)
next
  case QrAbort
  then show ?thesis
    by (auto simp: weak_def qr_abort_def split: option.splits)
qed (use assms step_same [of e s E] in \<open>auto intro: same_globals_weak\<close>)

lemma sendAsync_plain:
  "rq_method (heap s r) \<notin> set supportedMethods \<Longrightarrow>
   sendAsync E P r cb s =
     (Normal, promise_then (length (promises s)) (PlainK P r cb) (snd (promise_resolve (Arr []) s)))"
  by (simp add: sendAsync_def split_beta Let_def)

lemma push_param_fields [simp]:
  "sessionPromise (push_param r v s) = sessionPromise s"
  "webconnector (push_param r v s) = webconnector s"
  "promises (push_param r v s) = promises s"
  "jobs (push_param r v s) = jobs s"
  "connectors (push_param r v s) = connectors s"
  "pending (push_param r v s) = pending s"
  "xhrs (push_param r v s) = xhrs s"
  "modal (push_param r v s) = modal s"
  "effects (push_param r v s) = effects s"
  "heap (push_param r v s) = (heap s)(r := (heap s r)\<lparr>rq_params := rq_params (heap s r) @ [v]\<rparr>)"
  by (simp_all add: push_param_def)

lemma sendAsync_heap:
  "heap (snd (sendAsync E P r cb s)) =
     (if rq_method (heap s r) = ''eth_sendTransaction'' then
        (case js_member (case rq_params (heap s r) of [] \<Rightarrow> Undefined | x # xs \<Rightarrow> x) ''chainId'' of
           Inl e \<Rightarrow> heap s
         | Inr c \<Rightarrow>
             (case convertNumberToHex E c of
                Inl e \<Rightarrow> heap s
              | Inr h \<Rightarrow> (heap s)(r := (heap s r)\<lparr>rq_params := rq_params (heap s r) @ [h]\<rparr>)))
      else heap s)"
  by (simp add: sendAsync_def split_beta Let_def createWebconnector_globals
      supportedMethods_def walletconnectMethods_def split: option.splits sum.splits)

lemma sendAsync_existing:
  assumes "rq_method (heap s r) \<in> set supportedMethods" and "sessionPromise s = Some p"
  shows "sessionPromise (snd (sendAsync E P r cb s)) = Some p"
    and "webconnector (snd (sendAsync E P r cb s)) = webconnector s"
    and "connectors (snd (sendAsync E P r cb s)) = connectors s"
    and "effects (snd (sendAsync E P r cb s)) = effects s"
    and "pending (snd (sendAsync E P r cb s)) = pending s"
    and "length (promises (snd (sendAsync E P r cb s))) = Suc (length (promises s))"
  using assms
  by (simp_all add: sendAsync_def split_beta Let_def split: option.splits sum.splits)

lemma sendAsync_starts:
  assumes "rq_method (heap s r) \<in> set supportedMethods" and "sessionPromise s = None"
  shows "sessionPromise (snd (sendAsync E P r cb s)) =
           Some (fst (createWebconnector E P (snd (promise_resolve (Arr []) s))))"
    and "webconnector (snd (sendAsync E P r cb s)) = Some (length (connectors s))"
    and "negotiations (snd (sendAsync E P r cb s)) = Suc (negotiations s)"
    and "length (connectors (snd (sendAsync E P r cb s))) = Suc (length (connectors s))"
  using assms
  by (simp_all add: sendAsync_def split_beta Let_def createWebconnector_globals negotiations_def
      createWebconnector_effects split: option.splits sum.splits)

lemma observers_promise_then:
  "p < length (promises s) \<Longrightarrow> k \<in> set (observers (promise_then p k s) p)"
  by (cases "settled (promises s ! p)") (force simp: observers_def promise_then_def)+

lemma sendAsync_observes:
  assumes m: "rq_method (heap s r) \<in> set supportedMethods"
    and wf: "\<forall>q. sessionPromise s = Some q \<longrightarrow> q < length (promises s)"
    and n: "fst (sendAsync E P r cb s) = Normal"
  shows "\<exists>p. sessionPromise (snd (sendAsync E P r cb s)) = Some p \<and>
             p < length (promises (snd (sendAsync E P r cb s))) \<and>
             session_reaction (rq_method (heap s r)) r cb
               \<in> set (observers (snd (sendAsync E P r cb s)) p)"
proof (cases "sessionPromise s")
  case None
  define t where "t = snd (createWebconnector E P (snd (promise_resolve (Arr []) s)))"
  define q where "q = fst (createWebconnector E P (snd (promise_resolve (Arr []) s)))"
  have q: "q < length (promises (t\<lparr>sessionPromise := Some q\<rparr>))"
    using createWebconnector_fresh(2) [of E P "snd (promise_resolve (Arr []) s)"]
    by (simp add: q_def t_def)
  have h: "heap t = heap s"
    by (simp add: t_def createWebconnector_globals)
  show ?thesis
    using m n None q h
    by (auto simp: sendAsync_def split_beta Let_def session_reaction_def
        supportedMethods_def t_def [symmetric] q_def [symmetric]
        split: sum.splits if_splits intro!: observers_promise_then)
next
  case (Some q)
  then have q: "q < length (promises (snd (promise_resolve (Arr []) s)))"
    using wf by simp
  show ?thesis
    using m n Some q
    by (auto simp: sendAsync_def split_beta Let_def session_reaction_def
        supportedMethods_def
        split: sum.splits if_splits intro!: observers_promise_then)
qed

section \<open>Invariants of a trace\<close>

lemma run_append: "run E (xs @ ys) s = run E ys (run E xs s)"
  by (induction xs arbitrary: s) simp_all

lemma step_method:
  "rq_method (heap (step E e s) r) = rq_method (heap s r) \<and>
   rq_id (heap (step E e s) r) = rq_id (heap s r) \<and>
   rq_jsonrpc (heap (step E e s) r) = rq_jsonrpc (heap s r)"
proof (cases "is_call e")
  case True
  then obtain P r' cb where "e = Call_sendAsync P r' cb"
    by (cases e) simp_all
  then show ?thesis
    by (simp add: sendAsync_heap split: sum.splits)
next
  case False
  then show ?thesis
    using step_weak [of e s E] by (simp add: weak_def)
qed

lemma run_method:
  "rq_method (heap (run E evs s) r) = rq_method (heap s r) \<and>
   rq_id (heap (run E evs s) r) = rq_id (heap s r) \<and>
   rq_jsonrpc (heap (run E evs s) r) = rq_jsonrpc (heap s r)"
  by (induction evs arbitrary: s) (simp_all add: step_method)

lemma session_call_step: "session_call (step E e s) e' = session_call s e'"
  by (cases e') (simp_all add: step_method)

lemma step_holds:
  assumes "holds c p n s" and "\<not> clearing e"
  shows "holds c p n (step E e s)"
proof (cases e)
  case (Call_sendAsync P r cb)
  show ?thesis
  proof (cases "rq_method (heap s r) \<in> set supportedMethods")
    case True
    then show ?thesis
      using assms(1) Call_sendAsync sendAsync_existing [of s r p E P cb]
      by (simp add: holds_def negotiations_def)
  next
    case False
    then show ?thesis
      using assms(1) Call_sendAsync sendAsync_plain [of s r E P cb]
      by (simp add: holds_def negotiations_def)
  qed
qed (use assms step_same [of e s E] in \<open>auto simp: holds_def same_globals_def negotiations_def\<close>)

lemma run_holds:
  "holds c p n s \<Longrightarrow> \<forall>e\<in>set evs. \<not> clearing e \<Longrightarrow> holds c p n (run E evs s)"
  by (induction evs arbitrary: s) (simp_all add: step_holds)

lemma step_idle:
  assumes "sessionPromise s = None" and "\<not> session_call s e"
  shows "sessionPromise (step E e s) = None \<and> negotiations (step E e s) = negotiations s"
proof (cases e)
  case (Call_sendAsync P r cb)
  then show ?thesis
    using assms sendAsync_plain [of s r E P cb] by (simp add: negotiations_def)
qed (use assms step_weak [of e s E] in \<open>auto simp: weak_def negotiations_def\<close>)

lemma step_starts:
  assumes "sessionPromise s = None" and "rq_method (heap s r) \<in> set supportedMethods"
  shows "\<exists>p. holds (length (connectors s)) p (Suc (negotiations s)) (step E (Call_sendAsync P r cb) s)
           \<and> length (promises s) \<le> p"
proof -
  let ?s0 = "snd (promise_resolve (Arr []) s)"
  let ?p = "fst (createWebconnector E P ?s0)"
  have a: "?p < length (promises (snd (createWebconnector E P ?s0)))"
    "length (promises ?s0) \<le> ?p"
    using createWebconnector_fresh [where s = "?s0" and E = E and P = P] by simp_all
  have b: "length (promises (snd (createWebconnector E P ?s0)))
        \<le> length (promises (snd (sendAsync E P r cb s)))"
    using assms
    by (simp add: sendAsync_def split_beta Let_def split: sum.splits)
  show ?thesis
    using assms sendAsync_starts [of s r E P cb] a b
    by (auto simp: holds_def)
qed

lemma established_calls:
  assumes h: "holds c p n s" and nc: "\<forall>e\<in>set evs. \<not> clearing e"
    and d: "evs = pre @ Call_sendAsync P r cb # post"
    and m: "rq_method (heap s r) \<in> set supportedMethods"
  shows "sessionPromise (run E (pre @ [Call_sendAsync P r cb]) s) = Some p \<and>
         (fst (sendAsync E P r cb (run E pre s)) = Normal \<longrightarrow>
            session_reaction (rq_method (heap s r)) r cb
              \<in> set (observers (run E (pre @ [Call_sendAsync P r cb]) s) p))"
proof -
  let ?t = "run E pre s"
  have t: "holds c p n ?t"
    using h nc d by (intro run_holds) simp_all
  have mt: "rq_method (heap ?t r) = rq_method (heap s r)"
    by (simp add: run_method)
  have slot: "sessionPromise (snd (sendAsync E P r cb ?t)) = Some p"
    using sendAsync_existing(1) [of ?t r p E P cb] t m mt by (simp add: holds_def)
  have ob: "fst (sendAsync E P r cb ?t) = Normal \<longrightarrow>
      session_reaction (rq_method (heap s r)) r cb \<in> set (observers (snd (sendAsync E P r cb ?t)) p)"
  proof
    assume n: "fst (sendAsync E P r cb ?t) = Normal"
    have "\<forall>q. sessionPromise ?t = Some q \<longrightarrow> q < length (promises ?t)"
      using t by (simp add: holds_def)
    then obtain p' where "sessionPromise (snd (sendAsync E P r cb ?t)) = Some p'"
      and "session_reaction (rq_method (heap ?t r)) r cb
             \<in> set (observers (snd (sendAsync E P r cb ?t)) p')"
      using sendAsync_observes [of ?t r E P cb] m mt n by auto
    then show "session_reaction (rq_method (heap s r)) r cb
        \<in> set (observers (snd (sendAsync E P r cb ?t)) p)"
      using slot mt by simp
  qed
  show ?thesis
    using slot ob by (simp add: run_append)
qed

lemma createWebconnector_promises:
  "length (promises s) \<le> length (promises (snd (createWebconnector E P s)))"
  using createWebconnector_fresh [where s = s and E = E and P = P] by simp

lemma sendAsync_promises:
  "length (promises s) \<le> length (promises (snd (sendAsync E P r cb s)))"
proof -
  have "length (promises (snd (promise_resolve (Arr []) s)))
      \<le> length (promises (snd (createWebconnector E P (snd (promise_resolve (Arr []) s)))))"
    by (rule createWebconnector_promises)
  then show ?thesis
    by (simp add: sendAsync_def split_beta Let_def split: option.splits sum.splits)
qed

lemma step_promises:
  "length (promises s) \<le> length (promises (step E e s))"
proof (cases "is_call e")
  case True
  then obtain P r cb where "e = Call_sendAsync P r cb"
    by (cases e) simp_all
  then show ?thesis by (simp add: sendAsync_promises)
next
  case False
  then show ?thesis
    using step_weak [of e s E] by (simp add: weak_def)
qed

lemma run_idle:
  "sessionPromise s = None \<Longrightarrow> \<forall>e\<in>set evs. \<not> session_call s e \<Longrightarrow>
   sessionPromise (run E evs s) = None \<and> negotiations (run E evs s) = negotiations s \<and>
   length (promises s) \<le> length (promises (run E evs s))"
proof (induction evs arbitrary: s)
  case Nil
  then show ?case by simp
next
  case (Cons e es)
  have a: "sessionPromise (step E e s) = None" "negotiations (step E e s) = negotiations s"
    using step_idle [of s e E] Cons.prems by simp_all
  have b: "\<forall>x\<in>set es. \<not> session_call (step E e s) x"
    using Cons.prems(2) by (simp add: session_call_step)
  show ?case
    using Cons.IH [OF a(1) b] a(2) step_promises [of s E e] by simp
qed

lemma createWebconnector_connector:
  "wc_bridge (connectors (snd (createWebconnector E P s)) ! length (connectors s)) = bridgeURL P \<and>
   (\<forall>nl\<in>set (wc_listeners (connectors (snd (createWebconnector E P s)) ! length (connectors s))).
      listener_provider (snd nl) = P)"
  by (simp add: createWebconnector_def Let_def split_beta add_listener_def conn_def)

lemma sendAsync_connector:
  assumes "rq_method (heap s r) \<in> set supportedMethods" and "sessionPromise s = None"
  shows "wc_bridge (connectors (snd (sendAsync E P r cb s)) ! length (connectors s)) = bridgeURL P \<and>
   (\<forall>nl\<in>set (wc_listeners (connectors (snd (sendAsync E P r cb s)) ! length (connectors s))).
      listener_provider (snd nl) = P)"
proof -
  have "connectors (snd (sendAsync E P r cb s))
      = connectors (snd (createWebconnector E P (snd (promise_resolve (Arr []) s))))"
    using assms by (simp add: sendAsync_def split_beta Let_def split: sum.splits)
  then show ?thesis
    using createWebconnector_connector [of E P "snd (promise_resolve (Arr []) s)"] by simp
qed

lemma step_connector:
  assumes "holds c p n s" and "\<not> clearing e"
  shows "wc_bridge (connectors (step E e s) ! c) = wc_bridge (connectors s ! c) \<and>
         wc_listeners (connectors (step E e s) ! c) = wc_listeners (connectors s ! c)"
proof (cases e)
  case (Call_sendAsync P r cb)
  show ?thesis
  proof (cases "rq_method (heap s r) \<in> set supportedMethods")
    case True
    then show ?thesis
      using assms(1) Call_sendAsync sendAsync_existing [of s r p E P cb]
      by (simp add: holds_def)
  next
    case False
    then show ?thesis
      using assms(1) Call_sendAsync sendAsync_plain [of s r E P cb]
      by (simp add: holds_def)
  qed
qed (use assms step_same [of e s E] in \<open>auto simp: holds_def same_globals_def\<close>)

lemma run_connector:
  "holds c p n s \<Longrightarrow> \<forall>e\<in>set evs. \<not> clearing e \<Longrightarrow>
   wc_bridge (connectors (run E evs s) ! c) = wc_bridge (connectors s ! c) \<and>
   wc_listeners (connectors (run E evs s) ! c) = wc_listeners (connectors s ! c)"
proof (induction evs arbitrary: s)
  case Nil
  then show ?case by simp
next
  case (Cons e es)
  have h: "holds c p n (step E e s)"
    using Cons.prems by (simp add: step_holds)
  show ?case
    using Cons.IH [OF h] Cons.prems step_connector [of c p n s e E] by simp
qed

section \<open>Lemmas for the claims\<close>

lemma prepared_timeout_zero:
  "xh_timeout (xhrs (sendAsync_http E P r cb s) ! length (xhrs s)) = 0"
  by (simp add: sendAsync_http_def prepareRequest_def Let_def)

lemma timeout_event_disabled:
  "step E (XhrTimeout (length (xhrs s))) ((sendAsync_http E P r cb s)\<lparr>now := n\<rparr>)
     = (sendAsync_http E P r cb s)\<lparr>now := n\<rparr>"
  by (simp add: sendAsync_http_def prepareRequest_def Let_def timeout_due_def)

lemma observers_unattached:
  "q < length (promises s) \<Longrightarrow>
   observers (promise_then (length (promises s)) k (snd (promise_resolve v s))) q = observers s q"
  by (simp add: observers_def promise_then_def promise_resolve_def nth_append)







lemma sendAsync_completion:
  "fst (sendAsync E P r cb s) =
     (if rq_method (heap s r) = ''eth_sendTransaction'' then
        (case js_member (case rq_params (heap s r) of [] \<Rightarrow> Undefined | x # xs \<Rightarrow> x) ''chainId'' of
           Inl e \<Rightarrow> Throw e
         | Inr c \<Rightarrow> (case convertNumberToHex E c of Inl e \<Rightarrow> Throw e | Inr h \<Rightarrow> Normal))
      else Normal)"
  by (simp add: sendAsync_def split_beta Let_def createWebconnector_globals
      supportedMethods_def walletconnectMethods_def split: option.splits sum.splits)

lemma response_run:
  "response (heap (run E evs s) r) v =
     Obj [(''id'', rq_id (heap s r)), (''jsonrpc'', rq_jsonrpc (heap s r)), (''result'', v)]"
  by (simp add: response_def run_method)

section \<open>Claims\<close>

subsection \<open>C1: one negotiation for all concurrent dispatches\<close>

text \<open>
  C1: among dispatches that need a session and are issued before the negotiation has come
  to an end, exactly one negotiation is started; the first such call stores its promise in
  \<^verbatim>\<open>sessionPromise\<close> and every later one waits on that stored promise.

  The theorem takes any state with an empty \<^verbatim>\<open>sessionPromise\<close> and any trace of events
  in which the negotiation is not ended without an outcome (no abort of the modal, no
  failure of \<^verbatim>\<open>createSession()\<close>) and in which at least one call of \<^verbatim>\<open>sendAsync\<close> has a
  supported method. Whatever else happens in the trace (other calls from any provider,
  microtasks, events of the pairing library, also the settlement of the promise), one
  connector is built, and there is one promise \<open>p\<close> that is the stored promise after every
  such call and to which every such call that returns normally has attached its reaction.
\<close>

theorem single_negotiation:
  assumes "sessionPromise s = None"
    and "\<forall>e\<in>set evs. \<not> clearing e"
    and "\<exists>e\<in>set evs. session_call s e"
  shows "\<exists>p. sessionPromise (run E evs s) = Some p \<and>
             negotiations (run E evs s) = Suc (negotiations s) \<and>
             (\<forall>pre P r cb post.
                evs = pre @ Call_sendAsync P r cb # post \<and>
                rq_method (heap s r) \<in> set supportedMethods \<longrightarrow>
                sessionPromise (run E (pre @ [Call_sendAsync P r cb]) s) = Some p \<and>
                (fst (sendAsync E P r cb (run E pre s)) = Normal \<longrightarrow>
                   session_reaction (rq_method (heap s r)) r cb
                     \<in> set (observers (run E (pre @ [Call_sendAsync P r cb]) s) p)))"
  using assms
proof (induction evs arbitrary: s)
  case Nil
  then show ?case by simp
next
  case (Cons e es)
  let ?t = "step E e s"
  have nc: "\<forall>x\<in>set es. \<not> clearing x" "\<not> clearing e"
    using Cons.prems(2) by simp_all
  show ?case
  proof (cases "session_call s e")
    case True
    then obtain P0 r0 cb0 where e: "e = Call_sendAsync P0 r0 cb0"
      and m0: "rq_method (heap s r0) \<in> set supportedMethods"
      by (cases e) simp_all
    obtain p where hp: "holds (length (connectors s)) p (Suc (negotiations s)) ?t"
      using step_starts [OF Cons.prems(1) m0, of E P0 cb0] e by auto
    have fin: "holds (length (connectors s)) p (Suc (negotiations s)) (run E es ?t)"
      using hp nc(1) by (rule run_holds)
    have first: "fst (sendAsync E P0 r0 cb0 s) = Normal \<longrightarrow>
        session_reaction (rq_method (heap s r0)) r0 cb0 \<in> set (observers ?t p)"
    proof
      assume n: "fst (sendAsync E P0 r0 cb0 s) = Normal"
      have "\<forall>q. sessionPromise s = Some q \<longrightarrow> q < length (promises s)"
        using Cons.prems(1) by simp
      then obtain p' where "sessionPromise (snd (sendAsync E P0 r0 cb0 s)) = Some p'"
        and "session_reaction (rq_method (heap s r0)) r0 cb0
               \<in> set (observers (snd (sendAsync E P0 r0 cb0 s)) p')"
        using sendAsync_observes [of s r0 E P0 cb0] m0 n by auto
      then show "session_reaction (rq_method (heap s r0)) r0 cb0 \<in> set (observers ?t p)"
        using hp e by (simp add: holds_def)
    qed
    have later: "sessionPromise (run E (pre @ [Call_sendAsync P r cb]) s) = Some p \<and>
         (fst (sendAsync E P r cb (run E pre s)) = Normal \<longrightarrow>
            session_reaction (rq_method (heap s r)) r cb
              \<in> set (observers (run E (pre @ [Call_sendAsync P r cb]) s) p))"
      if d: "e # es = pre @ Call_sendAsync P r cb # post"
        and m: "rq_method (heap s r) \<in> set supportedMethods"
      for pre P r cb post
    proof (cases pre)
      case Nil
      then have "Call_sendAsync P r cb = e" using d by simp
      then show ?thesis
        using Nil e hp first by (simp add: holds_def)
    next
      case (Cons x pre')
      then have x: "x = e" and d': "es = pre' @ Call_sendAsync P r cb # post"
        using d by simp_all
      have m': "rq_method (heap ?t r) \<in> set supportedMethods"
        using m by (simp add: step_method)
      show ?thesis
        using established_calls [OF hp nc(1) d' m', of E] Cons x
        by (simp add: step_method)
    qed
    show ?thesis
      using fin later by (auto simp: holds_def)
  next
    case False
    have idle: "sessionPromise ?t = None" "negotiations ?t = negotiations s"
      using step_idle [OF Cons.prems(1) False, of E] by simp_all
    have ex: "\<exists>x\<in>set es. session_call ?t x"
      using Cons.prems(3) False by (auto simp: session_call_step)
    obtain p where p: "sessionPromise (run E es ?t) = Some p"
      "negotiations (run E es ?t) = Suc (negotiations ?t)"
      and calls: "\<And>pre P r cb post.
                es = pre @ Call_sendAsync P r cb # post \<Longrightarrow>
                rq_method (heap ?t r) \<in> set supportedMethods \<Longrightarrow>
                sessionPromise (run E (pre @ [Call_sendAsync P r cb]) ?t) = Some p \<and>
                (fst (sendAsync E P r cb (run E pre ?t)) = Normal \<longrightarrow>
                   session_reaction (rq_method (heap ?t r)) r cb
                     \<in> set (observers (run E (pre @ [Call_sendAsync P r cb]) ?t) p))"
      using Cons.IH [OF idle(1) nc(1) ex] by blast
    have later: "sessionPromise (run E (pre @ [Call_sendAsync P r cb]) s) = Some p \<and>
         (fst (sendAsync E P r cb (run E pre s)) = Normal \<longrightarrow>
            session_reaction (rq_method (heap s r)) r cb
              \<in> set (observers (run E (pre @ [Call_sendAsync P r cb]) s) p))"
      if d: "e # es = pre @ Call_sendAsync P r cb # post"
        and m: "rq_method (heap s r) \<in> set supportedMethods"
      for pre P r cb post
    proof (cases pre)
      case Nil
      then have "e = Call_sendAsync P r cb" using d by simp
      then show ?thesis using False m by simp
    next
      case (Cons x pre')
      then have x: "x = e" and d': "es = pre' @ Call_sendAsync P r cb # post"
        using d by simp_all
      have m': "rq_method (heap ?t r) \<in> set supportedMethods"
        using m by (simp add: step_method)
      show ?thesis
        using calls [OF d' m'] Cons x by (simp add: step_method)
    qed
    show ?thesis
      using p idle later by auto
  qed
qed

theorem single_negotiation_witness:
  "sessionPromise (init demo_heap) = None \<and>
   session_call (init demo_heap) (Call_sendAsync demo_provider 1 10) \<and>
   negotiations (run demo_externals demo_calls (init demo_heap)) = 1 \<and>
   sessionPromise (run demo_externals [Call_sendAsync demo_provider 1 10] (init demo_heap))
     = sessionPromise (run demo_externals demo_calls (init demo_heap))"
proof -
  have a: "sessionPromise (init demo_heap) = None"
    by (simp add: init_def)
  have b: "\<forall>e\<in>set demo_calls. \<not> clearing e"
    by (simp add: demo_calls_def)
  have m: "rq_method (heap (init demo_heap) 1) \<in> set supportedMethods"
    by (simp add: init_def demo_heap_def supportedMethods_def)
  have c: "\<exists>e\<in>set demo_calls. session_call (init demo_heap) e"
    using m by (simp add: demo_calls_def)
  have d: "demo_calls = [] @ Call_sendAsync demo_provider 1 10 # tl demo_calls"
    by (simp add: demo_calls_def)
  have z: "negotiations (init demo_heap) = 0"
    by (simp add: negotiations_def init_def)
  obtain p where p: "sessionPromise (run demo_externals demo_calls (init demo_heap)) = Some p"
    "negotiations (run demo_externals demo_calls (init demo_heap))
       = Suc (negotiations (init demo_heap))"
    and calls: "\<And>pre P r cb post.
        demo_calls = pre @ Call_sendAsync P r cb # post \<Longrightarrow>
        rq_method (heap (init demo_heap) r) \<in> set supportedMethods \<Longrightarrow>
        sessionPromise (run demo_externals (pre @ [Call_sendAsync P r cb]) (init demo_heap)) = Some p"
    using single_negotiation [OF a b c, of demo_externals] by blast
  show ?thesis
    using a m z p calls [OF d m] by simp
qed

subsection \<open>C2: plain relay and the session promise\<close>

text \<open>
  C2 says that a call whose method is not in \<^verbatim>\<open>supportedMethods\<close> waits on the current
  session promise, if there is one, before it goes to the HTTP path. In the source such a
  call uses \<^verbatim>\<open>p = Promise.resolve([])\<close>; \<^verbatim>\<open>sessionPromise\<close> is read only in the other
  branch. While the negotiation of the scenario is pending (promise 2 not settled), a
  dispatch of \<^verbatim>\<open>eth_blockNumber\<close> sends its HTTP request at the next microtask.
\<close>

theorem plain_relay_counterexample:
  "rq_method (heap negotiating 0) \<notin> set supportedMethods \<and>
   sessionPromise negotiating = Some 2 \<and> settlement_of negotiating 2 = None \<and>
   jobs negotiating = [] \<and>
   settlement_of (run demo_externals [Call_sendAsync demo_provider 0 12, Microtask] negotiating) 2
     = None \<and>
   effects (run demo_externals [Call_sendAsync demo_provider 0 12, Microtask] negotiating)
     = effects negotiating @ [XHR_send 0 ''eth_blockNumber'']"
  by code_simp

text \<open>
  C2 as amended: a call whose method is not in \<^verbatim>\<open>supportedMethods\<close> never starts a
  negotiation and never reads or changes the session promise; it waits only on a new
  promise that is already fulfilled, attaches nothing to any promise that existed before,
  and its job, once run, is \<^verbatim>\<open>_sendAsync(payload, callback)\<close>, whether or not a session
  promise exists or has settled.
\<close>

theorem plain_relay_dispatch:
  assumes "rq_method (heap s r) \<notin> set supportedMethods"
  shows "fst (sendAsync E P r cb s) = Normal \<and>
         sessionPromise (snd (sendAsync E P r cb s)) = sessionPromise s \<and>
         webconnector (snd (sendAsync E P r cb s)) = webconnector s \<and>
         effects (snd (sendAsync E P r cb s)) = effects s \<and>
         jobs (snd (sendAsync E P r cb s)) = jobs s @ [(length (promises s), PlainK P r cb)] \<and>
         settlement_of (snd (sendAsync E P r cb s)) (length (promises s))
           = Some (Fulfilled (Arr [])) \<and>
         (\<forall>q < length (promises s).
            observers (snd (sendAsync E P r cb s)) q = observers s q) \<and>
         (jobs s = [] \<longrightarrow>
            step E Microtask (snd (sendAsync E P r cb s))
              = sendAsync_http E P r cb ((snd (sendAsync E P r cb s))\<lparr>jobs := []\<rparr>))"
proof -
  have eq: "snd (sendAsync E P r cb s) =
      promise_then (length (promises s)) (PlainK P r cb) (snd (promise_resolve (Arr []) s))"
    and n: "fst (sendAsync E P r cb s) = Normal"
    using sendAsync_plain [OF assms, of E P cb] by simp_all
  have j: "jobs (snd (sendAsync E P r cb s)) = jobs s @ [(length (promises s), PlainK P r cb)]"
    and st: "settlement_of (snd (sendAsync E P r cb s)) (length (promises s))
           = Some (Fulfilled (Arr []))"
    unfolding eq by (simp_all add: promise_then_def promise_resolve_def settlement_of_def)
  have ob: "\<forall>q < length (promises s).
            observers (snd (sendAsync E P r cb s)) q = observers s q"
    unfolding eq by (simp add: observers_unattached)
  have mt: "jobs s = [] \<longrightarrow>
            step E Microtask (snd (sendAsync E P r cb s))
              = sendAsync_http E P r cb ((snd (sendAsync E P r cb s))\<lparr>jobs := []\<rparr>)"
    using j st by simp
  show ?thesis
    using n j st ob mt unfolding eq by simp
qed

theorem plain_relay_dispatch_witness:
  "rq_method (heap negotiating 0) \<notin> set supportedMethods \<and>
   sessionPromise negotiating = Some 2 \<and> 2 < length (promises negotiating) \<and>
   sessionPromise (snd (sendAsync demo_externals demo_provider 0 12 negotiating)) = Some 2 \<and>
   observers (snd (sendAsync demo_externals demo_provider 0 12 negotiating)) 2
     = observers negotiating 2 \<and>
   jobs (snd (sendAsync demo_externals demo_provider 0 12 negotiating))
     = [(3, PlainK demo_provider 0 12)]"
proof -
  have a: "rq_method (heap negotiating 0) \<notin> set supportedMethods"
    by code_simp
  have b: "sessionPromise negotiating = Some 2" "length (promises negotiating) = 3"
    "jobs negotiating = []"
    by code_simp+
  show ?thesis
    using plain_relay_dispatch [OF a, of demo_externals demo_provider 12] a b by simp
qed

subsection \<open>C3: the accounts query\<close>




subsection \<open>C4: failure of the session request\<close>

text \<open>
  C4 says that when \<^verbatim>\<open>createSession()\<close> fails both module variables are cleared and the
  failure reaches every caller awaiting the negotiation. At the failing input (one
  \<^verbatim>\<open>eth_sign\<close> dispatch, then the rejection of \<^verbatim>\<open>createSession()\<close>) the variables are
  cleared, but the \<^verbatim>\<open>catch\<close> handler never calls \<^verbatim>\<open>reject\<close>: the promise the caller
  awaits (number 2) stays pending with the caller's reaction still attached, also after a
  later \<^verbatim>\<open>connect\<close> event, and the callback is never invoked.
\<close>

theorem createSession_failure_swallowed:
  "sessionPromise (run demo_externals
      [Call_sendAsync demo_provider 3 11, CreateSessionRejected 0 (Err ''bridge unreachable''),
       Microtask, WcEmit 0 ''connect'' Null demo_payload, Microtask] (init demo_heap)) = None \<and>
   webconnector (run demo_externals
      [Call_sendAsync demo_provider 3 11, CreateSessionRejected 0 (Err ''bridge unreachable''),
       Microtask, WcEmit 0 ''connect'' Null demo_payload, Microtask] (init demo_heap)) = None \<and>
   settlement_of (run demo_externals
      [Call_sendAsync demo_provider 3 11, CreateSessionRejected 0 (Err ''bridge unreachable''),
       Microtask, WcEmit 0 ''connect'' Null demo_payload, Microtask] (init demo_heap)) 2 = None \<and>
   observers (run demo_externals
      [Call_sendAsync demo_provider 3 11, CreateSessionRejected 0 (Err ''bridge unreachable''),
       Microtask, WcEmit 0 ''connect'' Null demo_payload, Microtask] (init demo_heap)) 2
     = [SigningK 3 11] \<and>
   filter is_Callback (effects (run demo_externals
      [Call_sendAsync demo_provider 3 11, CreateSessionRejected 0 (Err ''bridge unreachable''),
       Microtask, WcEmit 0 ''connect'' Null demo_payload, Microtask] (init demo_heap))) = []"
  by code_simp

subsection \<open>C5: the request object of the caller\<close>

text \<open>
  C5 says that \<^verbatim>\<open>sendAsync\<close> never mutates the request object of its caller, the chain
  identifier being appended to a forwarded copy. The source calls
  \<^verbatim>\<open>payload.params.push(...)\<close> on the object it was given: after dispatching the
  \<^verbatim>\<open>eth_sendTransaction\<close> request of the scenario, the caller's object holds a second
  parameter.
\<close>

theorem request_mutated_counterexample:
  "rq_params (heap (init demo_heap) 2) = [Obj [(''chainId'', Num 1)]] \<and>
   rq_params (heap (snd (sendAsync demo_externals demo_provider 2 10 (init demo_heap))) 2)
     = [Obj [(''chainId'', Num 1)], Str ''0x01'']"
  by code_simp

text \<open>
  C5 as amended: \<^verbatim>\<open>sendAsync\<close> changes a request object in one case only. For
  \<^verbatim>\<open>eth_sendTransaction\<close>, when the first parameter is there (neither \<^verbatim>\<open>undefined\<close> nor
  \<^verbatim>\<open>null\<close>) and \<^verbatim>\<open>convertNumberToHex\<close> returns for its \<^verbatim>\<open>chainId\<close>, the returned string
  is appended in place to the \<^verbatim>\<open>params\<close> of the caller's own object and the call returns.
  When the first parameter is missing, or \<^verbatim>\<open>convertNumberToHex\<close> throws (as for a
  transaction without \<^verbatim>\<open>chainId\<close>), the call throws that error and no request object is
  changed. For every other method the call returns and no request object is changed. The
  object later handed to \<^verbatim>\<open>sendCustomRequest\<close> is the caller's object \<open>r\<close> itself, not a
  copy.
\<close>

theorem sendAsync_request_frame:
  "(fst (sendAsync E P r cb s), heap (snd (sendAsync E P r cb s))) =
     (if rq_method (heap s r) = ''eth_sendTransaction'' then
        (case js_member (case rq_params (heap s r) of [] \<Rightarrow> Undefined | x # xs \<Rightarrow> x) ''chainId'' of
           Inl e \<Rightarrow> (Throw e, heap s)
         | Inr c \<Rightarrow>
             (case convertNumberToHex E c of
                Inl e \<Rightarrow> (Throw e, heap s)
              | Inr h \<Rightarrow>
                  (Normal,
                   (heap s)(r := (heap s r)\<lparr>rq_params := rq_params (heap s r) @ [h]\<rparr>))))
      else (Normal, heap s))
   \<and> (\<forall>c v. webconnector s = Some c \<and> c < length (connectors s) \<longrightarrow>
         effects (run_reaction E (SigningK r cb) (Fulfilled v) s)
           = effects s @ [WC_sendCustomRequest c r (length (pending s))] \<and>
         heap (run_reaction E (SigningK r cb) (Fulfilled v) s) = heap s)"
  by (simp add: sendAsync_heap sendAsync_completion conn_def split: sum.splits)

theorem sendAsync_request_frame_witness:
  "webconnector established = Some 0 \<and> 0 < length (connectors established) \<and>
   effects (run_reaction demo_externals (SigningK 2 10) (Fulfilled Null)
              (snd (sendAsync demo_externals demo_provider 2 10 established)))
     = effects established @ [WC_sendCustomRequest 0 2 2] \<and>
   rq_params (heap (run_reaction demo_externals (SigningK 2 10) (Fulfilled Null)
              (snd (sendAsync demo_externals demo_provider 2 10 established))) 2)
     = [Obj [(''chainId'', Num 1)], Str ''0x01''] \<and>
   fst (sendAsync demo_externals demo_provider 4 10 established)
     = Throw (Err ''invalid hexlify value'') \<and>
   rq_params (heap (snd (sendAsync demo_externals demo_provider 4 10 established)) 4)
     = [Obj [(''from'', Str ''0xabc'')]] \<and>
   fst (sendAsync demo_externals demo_provider 5 10 established) = Throw (Err ''TypeError'') \<and>
   rq_params (heap (snd (sendAsync demo_externals demo_provider 5 10 established)) 5) = []"
proof -
  let ?t = "snd (sendAsync demo_externals demo_provider 2 10 established)"
  have a: "webconnector ?t = Some 0" "0 < length (connectors ?t)"
    "effects ?t = effects established" "length (pending ?t) = 2"
    "webconnector established = Some 0" "0 < length (connectors established)"
    by code_simp+
  have b: "rq_params (heap ?t 2) = [Obj [(''chainId'', Num 1)], Str ''0x01'']"
    by code_simp
  have h: "heap established 4 = demo_heap 4" "heap established 5 = demo_heap 5"
    by code_simp+
  have c: "rq_method (demo_heap 4) = ''eth_sendTransaction''"
    "rq_params (demo_heap 4) = [Obj [(''from'', Str ''0xabc'')]]"
    "rq_method (demo_heap 5) = ''eth_sendTransaction''"
    "rq_params (demo_heap 5) = []"
    "convertNumberToHex demo_externals Undefined = Inl (Err ''invalid hexlify value'')"
    by (simp_all add: demo_heap_def demo_externals_def demo_hex_def)
  have d4: "fst (sendAsync demo_externals demo_provider 4 10 established)
      = Throw (Err ''invalid hexlify value'')"
    "heap (snd (sendAsync demo_externals demo_provider 4 10 established)) = heap established"
    using sendAsync_request_frame [of demo_externals demo_provider 4 10 established] h c
    by simp_all
  have d5: "fst (sendAsync demo_externals demo_provider 5 10 established) = Throw (Err ''TypeError'')"
    "heap (snd (sendAsync demo_externals demo_provider 5 10 established)) = heap established"
    using sendAsync_request_frame [of demo_externals demo_provider 5 10 established] h c
    by simp_all
  show ?thesis
    using sendAsync_request_frame [of demo_externals demo_provider 2 10 ?t] a b d4 d5 h c
    by simp
qed

subsection \<open>C6: the response echoes the request\<close>

text \<open>
  C6: on the session paths the object given to the callback carries the \<^verbatim>\<open>id\<close> and the
  \<^verbatim>\<open>jsonrpc\<close> of the request, on success and on error. A request object \<open>r\<close> has
  \<^verbatim>\<open>id\<close> \<open>X\<close> and \<^verbatim>\<open>jsonrpc\<close> \<open>J\<close> in the state \<open>s\<close> of its dispatch; any events follow, and
  \<open>t\<close> is the state in which a continuation of the dispatch runs. Each way a session path
  ends is listed: the rejection of the awaited promise, the missing connector, the
  settlement of \<^verbatim>\<open>sendCustomRequest\<close> (after the request was forwarded), and the two
  outcomes of the accounts query. In each the callback gets an object with \<^verbatim>\<open>id\<close> \<open>X\<close> and
  \<^verbatim>\<open>jsonrpc\<close> \<open>J\<close>.
\<close>

theorem response_echo:
  assumes "t = run E evs s"
    and "X = rq_id (heap s r)" and "J = rq_jsonrpc (heap s r)"
  shows "effects (run_reaction E (SigningK r cb) (Rejected e) t)
           = effects t @ [Callback cb e (Obj [(''id'', X), (''jsonrpc'', J), (''result'', Null)])] \<and>
         (effects (run_reaction E (SigningK r cb) (Fulfilled v) t)
            = effects t @ [Callback cb (Err ''TypeError'')
                             (Obj [(''id'', X), (''jsonrpc'', J), (''result'', Null)])] \<or>
          (\<exists>c. effects (run_reaction E (SigningK r cb) (Fulfilled v) t)
                 = effects t @ [WC_sendCustomRequest c r (length (pending t))] \<and>
               take_pending (length (pending t)) (run_reaction E (SigningK r cb) (Fulfilled v) t)
                 = Some (CustomRequestK r cb))) \<and>
         (take_pending n t = Some (CustomRequestK r cb) \<longrightarrow>
            effects (step E (CustomRequestResolved n v) t)
              = effects t @ [Callback cb Null (Obj [(''id'', X), (''jsonrpc'', J), (''result'', v)])] \<and>
            effects (step E (CustomRequestRejected n e) t)
              = effects t @ [Callback cb e (Obj [(''id'', X), (''jsonrpc'', J), (''result'', Null)])]) \<and>
         effects (run_reaction E (AccountsK r cb) (Fulfilled v) t)
           = effects t @ [Callback cb Null
               (Obj [(''id'', X), (''jsonrpc'', J),
                     (''result'', js_or (current_accounts t) (Arr []))])] \<and>
         effects (run_reaction E (AccountsK r cb) (Rejected e) t)
           = effects t @ [Callback cb e (Obj [(''id'', X), (''jsonrpc'', J), (''result'', Undefined)])]"
proof -
  have r: "\<And>v. response (heap t r) v = Obj [(''id'', X), (''jsonrpc'', J), (''result'', v)]"
    unfolding assms by (rule response_run)
  have c: "\<And>n. heap (clear_pending n t) = heap t" "\<And>n. effects (clear_pending n t) = effects t"
    by (simp_all add: clear_pending_def)
  show ?thesis
    by (simp add: r c take_pending_def split: option.splits)
qed

theorem response_echo_witness:
  "take_pending 1 established = Some (CustomRequestK 3 11) \<and>
   rq_id (heap negotiating 3) = Num 4 \<and> rq_jsonrpc (heap negotiating 3) = Str ''2.0'' \<and>
   effects (step demo_externals (CustomRequestResolved 1 (Str ''0xsig'')) established)
     = effects established @
       [Callback 11 Null (Obj [(''id'', Num 4), (''jsonrpc'', Str ''2.0''), (''result'', Str ''0xsig'')])] \<and>
   effects (step demo_externals (CustomRequestRejected 1 (Err ''denied'')) established)
     = effects established @
       [Callback 11 (Err ''denied'') (Obj [(''id'', Num 4), (''jsonrpc'', Str ''2.0''), (''result'', Null)])]"
proof -
  have a: "take_pending 1 established = Some (CustomRequestK 3 11)"
    by code_simp
  have b: "Num 4 = rq_id (heap negotiating 3)" "Str ''2.0'' = rq_jsonrpc (heap negotiating 3)"
    by code_simp+
  have t: "established = run demo_externals
       [WcAttrs 0 True demo_session ''wc:1'', WcEmit 0 ''connect'' Null demo_payload,
        Microtask, Microtask] negotiating"
    by (simp only: established_def)
  show ?thesis
    using response_echo [OF t b, where cb = 11 and e = "Err ''denied''" and v = "Str ''0xsig''"
        and n = 1] a b
    by simp
qed

subsection \<open>C7: a disconnect event that carries an error\<close>

text \<open>
  C7 says that an error carried by a \<^verbatim>\<open>disconnect\<close> event during an established session is
  reported through the \<^verbatim>\<open>onDisconnect\<close> (or \<^verbatim>\<open>onConnect\<close>) hook and never thrown past the
  event handler. The listener starts with \<^verbatim>\<open>if (error) { throw error }\<close>: in the
  established session of the scenario, whose provider has an \<^verbatim>\<open>onDisconnect\<close> hook, such an
  event reaches the emitter as an exception and no hook is called.
\<close>

theorem disconnect_error_counterexample:
  "isConnected demo_provider established \<and>
   onDisconnect (callbacks demo_provider) = Some 5 \<and>
   effects (step demo_externals (WcEmit 0 ''disconnect'' (Err ''lost'') Undefined) established)
     = effects established @ [Uncaught (Err ''lost'')]"
  by code_simp

text \<open>
  C7 as amended: for a connector with the \<^verbatim>\<open>disconnect\<close> listener that
  \<^verbatim>\<open>createWebconnector\<close> registers, a \<^verbatim>\<open>disconnect\<close> event with an error makes the listener
  throw that error to the emitter, and neither the hook nor the modal is called; an event
  without error calls \<^verbatim>\<open>onDisconnect(error, payload)\<close> when the hook was supplied and then
  closes the QR-code modal when \<^verbatim>\<open>showQRCode\<close> is set.
\<close>

theorem disconnect_event:
  assumes "conn s c = Some k"
    and "map snd (filter (\<lambda>nl. fst nl = ''disconnect'') (wc_listeners k)) = [OnDisconnect P]"
  shows "effects (step E (WcEmit c ''disconnect'' error payload) s) =
           effects s @
           (if truthy error then [Uncaught error]
            else (case onDisconnect (callbacks P) of None \<Rightarrow> [] | Some h \<Rightarrow> [Hook h [error, payload]])
                 @ (if showQRCode P then [Modal_close] else []))"
  using assms
  by (simp add: run_listener_def on_disconnect_def Let_def split: option.splits)

theorem disconnect_event_witness:
  "conn established 0 = Some (connectors established ! 0) \<and>
   map snd (filter (\<lambda>nl. fst nl = ''disconnect'') (wc_listeners (connectors established ! 0)))
     = [OnDisconnect demo_provider] \<and>
   effects (step demo_externals (WcEmit 0 ''disconnect'' Null Undefined) established)
     = effects established @ [Hook 5 [Null, Undefined], Modal_close]"
proof -
  have a: "conn established 0 = Some (connectors established ! 0)"
    by code_simp
  have b: "map snd (filter (\<lambda>nl. fst nl = ''disconnect'') (wc_listeners (connectors established ! 0)))
     = [OnDisconnect demo_provider]"
    by code_simp
  have c: "onDisconnect (callbacks demo_provider) = Some 5" "showQRCode demo_provider"
    by (simp_all add: demo_provider_def WalletConnectProvider_def)
  show ?thesis
    using a b disconnect_event [OF a b, of demo_externals Null Undefined] c by simp
qed

subsection \<open>C8: abort of the pairing approval\<close>

text \<open>
  C8: when the abort callback of the QR-code modal fires, \<^verbatim>\<open>webconnector\<close> and
  \<^verbatim>\<open>sessionPromise\<close> are cleared and \<^verbatim>\<open>onAbort\<close> is invoked (it is an optional hook: it is
  called with the URI when the provider has one), so that the next dispatch that needs a
  session starts a new negotiation. Here the modal is open with the abort closure of
  provider \<open>P\<close>; after the abort any events may follow that are not such a dispatch; the
  dispatch that comes then, from any provider \<open>Q\<close>, builds a new connector and stores a
  promise \<open>q\<close> that did not exist when the modal was dismissed.
\<close>

theorem abort_resets:
  assumes "modal s = Some (uri, P)"
    and "\<forall>e\<in>set evs. \<not> session_call s e"
    and "rq_method (heap s r) \<in> set supportedMethods"
  shows "sessionPromise (step E QrAbort s) = None \<and>
         webconnector (step E QrAbort s) = None \<and>
         effects (step E QrAbort s) =
           effects s @ (case onAbort (callbacks P) of None \<Rightarrow> [] | Some h \<Rightarrow> [Hook h [Str uri]]) \<and>
         sessionPromise (run E evs (step E QrAbort s)) = None \<and>
         (\<exists>q. sessionPromise (step E (Call_sendAsync Q r cb) (run E evs (step E QrAbort s)))
                = Some q \<and>
              length (promises s) \<le> q \<and>
              negotiations (step E (Call_sendAsync Q r cb) (run E evs (step E QrAbort s)))
                = Suc (negotiations s))"
proof -
  let ?a = "step E QrAbort s"
  let ?t = "run E evs ?a"
  have a: "sessionPromise ?a = None" "webconnector ?a = None"
    "effects ?a = effects s @ (case onAbort (callbacks P) of None \<Rightarrow> [] | Some h \<Rightarrow> [Hook h [Str uri]])"
    "negotiations ?a = negotiations s" "length (promises ?a) = length (promises s)"
    using assms(1) by (simp_all add: qr_abort_def negotiations_def split: option.splits)
  have b: "\<forall>e\<in>set evs. \<not> session_call ?a e"
    unfolding session_call_step using assms(2) .
  have t: "sessionPromise ?t = None" "negotiations ?t = negotiations s"
    "length (promises s) \<le> length (promises ?t)"
    using run_idle [OF a(1) b, of E] a(4,5) by simp_all
  have m: "rq_method (heap ?t r) \<in> set supportedMethods"
    using assms(3) run_method [of E evs ?a r] step_method [of E QrAbort s r] by metis
  obtain q where "holds (length (connectors ?t)) q (Suc (negotiations ?t)) (step E (Call_sendAsync Q r cb) ?t)"
    and "length (promises ?t) \<le> q"
    using step_starts [OF t(1) m, of E Q cb] by blast
  then show ?thesis
    using a t by (auto simp: holds_def)
qed

theorem abort_resets_witness:
  "modal negotiating = Some (''wc:1'', demo_provider) \<and>
   sessionPromise negotiating = Some 2 \<and>
   \<not> session_call negotiating (Call_sendAsync demo_provider 0 12) \<and>
   rq_method (heap negotiating 1) \<in> set supportedMethods \<and>
   effects (step demo_externals QrAbort negotiating) = effects negotiating @ [Hook 3 [Str ''wc:1'']] \<and>
   sessionPromise (step demo_externals QrAbort negotiating) = None \<and>
   negotiations (step demo_externals (Call_sendAsync other_provider 1 10)
      (run demo_externals [Microtask, Call_sendAsync demo_provider 0 12]
         (step demo_externals QrAbort negotiating))) = 2"
proof -
  have a: "modal negotiating = Some (''wc:1'', demo_provider)"
    by code_simp
  have b: "\<forall>e\<in>set [Microtask, Call_sendAsync demo_provider 0 12]. \<not> session_call negotiating e"
    by code_simp
  have c: "rq_method (heap negotiating 1) \<in> set supportedMethods"
    by code_simp
  have d: "sessionPromise negotiating = Some 2" "negotiations negotiating = 1"
    "onAbort (callbacks demo_provider) = Some 3"
    by code_simp+
  show ?thesis
    using abort_resets [OF a b c, of demo_externals other_provider 10] a b c d by auto
qed

subsection \<open>C9: the timeout of the non-blocking HTTP path\<close>

text \<open>
  \<^verbatim>\<open>_sendAsync\<close> installs \<^verbatim>\<open>request.ontimeout\<close>, but neither it nor \<^verbatim>\<open>prepareRequest\<close>
  assigns \<^verbatim>\<open>request.timeout\<close>: the request keeps the attribute value 0 of a new
  XMLHttpRequest, whatever \<^verbatim>\<open>this.timeout\<close> is, and the platform fires no timeout for it.

  C9 says that with a configured timeout \<open>T\<close> and a transport that never responds the
  callback is invoked once with a timeout error, the configured value being applied to the
  outgoing request. At the failing input (a provider with \<^verbatim>\<open>timeout\<close> 5000 relaying
  \<^verbatim>\<open>eth_blockNumber\<close>, no response, ten minutes passing) the request that was sent has
  \<^verbatim>\<open>timeout\<close> 0 and the callback is never invoked: the only effect is the send itself.
\<close>

theorem timeout_never_applied:
  "timeout demo_provider = 5000 \<and>
   xh_timeout (xhrs (run demo_externals [Call_sendAsync demo_provider 0 12, Microtask]
                  (init demo_heap)) ! 0) = 0 \<and>
   effects (run demo_externals
              [Call_sendAsync demo_provider 0 12, Microtask, Advance 600000, XhrTimeout 0]
              (init demo_heap))
     = [XHR_send 0 ''eth_blockNumber'']"
  by (simp add: model_defs)

subsection \<open>C10: one session for all provider instances\<close>

text \<open>
  C10: \<^verbatim>\<open>webconnector\<close> and \<^verbatim>\<open>sessionPromise\<close> are variables of the module, not fields of
  a provider (in the model they are fields of the state, while a provider is the record of
  its configuration). Provider \<open>A\<close> dispatches a request that needs a session while the
  slot is empty, and any events follow that do not clear the slot; \<open>t\<close> is the state then
  and \<open>c\<close> the connector that the dispatch built. For every provider \<open>B\<close>: the connector of
  the module is still \<open>c\<close>, built for the bridge of \<open>A\<close> with listeners that captured \<open>A\<close>
  (so the hooks they call are those of \<open>A\<close>); \<open>isConnected\<close> of \<open>B\<close> reports the
  \<^verbatim>\<open>connected\<close> flag of \<open>c\<close>; \<open>disconnect\<close> of \<open>B\<close> kills the session of \<open>c\<close>; and a
  dispatch of \<open>B\<close> that needs a session builds no connector, calls nothing and keeps the
  stored promise.
\<close>

theorem shared_session:
  assumes "sessionPromise s = None"
    and "rq_method (heap s r) \<in> set supportedMethods"
    and "\<forall>e\<in>set evs. \<not> clearing e"
    and "t = run E evs (step E (Call_sendAsync A r cb) s)"
    and "c = length (connectors s)"
  shows "webconnector t = Some c \<and>
         wc_bridge (connectors t ! c) = bridgeURL A \<and>
         (\<forall>nl\<in>set (wc_listeners (connectors t ! c)). listener_provider (snd nl) = A) \<and>
         negotiations t = Suc (negotiations s) \<and>
         isConnected B t = wc_connected (connectors t ! c) \<and>
         effects (disconnect B t) =
           effects t @ (if wc_connected (connectors t ! c) then [WC_killSession c] else []) \<and>
         (rq_method (heap s r') \<in> set supportedMethods \<longrightarrow>
            sessionPromise (step E (Call_sendAsync B r' cb') t) = sessionPromise t \<and>
            webconnector (step E (Call_sendAsync B r' cb') t) = Some c \<and>
            connectors (step E (Call_sendAsync B r' cb') t) = connectors t \<and>
            effects (step E (Call_sendAsync B r' cb') t) = effects t)"
proof -
  let ?u = "step E (Call_sendAsync A r cb) s"
  obtain p where hu: "holds c p (Suc (negotiations s)) ?u"
    using step_starts [OF assms(1,2), of E A cb] assms(5) by blast
  have ht: "holds c p (Suc (negotiations s)) t"
    unfolding assms(4) using hu assms(3) by (rule run_holds)
  have cu: "wc_bridge (connectors ?u ! c) = bridgeURL A"
    "\<forall>nl\<in>set (wc_listeners (connectors ?u ! c)). listener_provider (snd nl) = A"
    using sendAsync_connector [OF assms(2,1), of E A cb] assms(5) by simp_all
  have ct: "wc_bridge (connectors t ! c) = bridgeURL A"
    "\<forall>nl\<in>set (wc_listeners (connectors t ! c)). listener_provider (snd nl) = A"
    using run_connector [OF hu assms(3), of E] cu unfolding assms(4) by simp_all
  have m: "rq_method (heap t r') = rq_method (heap s r')"
    unfolding assms(4) using run_method [of E evs ?u r'] step_method [of E "Call_sendAsync A r cb" s r']
    by metis
  have b: "rq_method (heap s r') \<in> set supportedMethods \<longrightarrow>
            sessionPromise (step E (Call_sendAsync B r' cb') t) = sessionPromise t \<and>
            webconnector (step E (Call_sendAsync B r' cb') t) = Some c \<and>
            connectors (step E (Call_sendAsync B r' cb') t) = connectors t \<and>
            effects (step E (Call_sendAsync B r' cb') t) = effects t"
    using sendAsync_existing [of t r' p E B cb'] ht m by (simp add: holds_def)
  have d: "isConnected B t = wc_connected (connectors t ! c)"
    "effects (disconnect B t) =
           effects t @ (if wc_connected (connectors t ! c) then [WC_killSession c] else [])"
    using ht by (simp_all add: holds_def isConnected_def disconnect_def conn_def)
  show ?thesis
    using ht ct b d by (simp add: holds_def)
qed

theorem shared_session_witness:
  "sessionPromise (init demo_heap) = None \<and>
   rq_method (heap (init demo_heap) 3) \<in> set supportedMethods \<and>
   bridgeURL other_provider \<noteq> bridgeURL demo_provider \<and>
   wc_bridge (connectors established ! 0) = bridgeURL demo_provider \<and>
   isConnected other_provider established \<and>
   webconnector (step demo_externals (Call_sendAsync other_provider 1 10) established) = Some 0 \<and>
   negotiations (step demo_externals (Call_sendAsync other_provider 1 10) established) = 1"
proof -
  have a: "sessionPromise (init demo_heap) = None"
    by (simp add: init_def)
  have m: "rq_method (heap (init demo_heap) 3) \<in> set supportedMethods"
    "rq_method (heap (init demo_heap) 1) \<in> set supportedMethods"
    by (simp_all add: init_def demo_heap_def supportedMethods_def walletconnectMethods_def)
  have nc: "\<forall>e\<in>set [WcAttrs 0 False Null ''wc:1'', CreateSessionResolved 0,
       WcAttrs 0 True demo_session ''wc:1'', WcEmit 0 ''connect'' Null demo_payload,
       Microtask, Microtask]. \<not> clearing e"
    by simp
  have t: "established = run demo_externals
      [WcAttrs 0 False Null ''wc:1'', CreateSessionResolved 0,
       WcAttrs 0 True demo_session ''wc:1'', WcEmit 0 ''connect'' Null demo_payload,
       Microtask, Microtask]
      (step demo_externals (Call_sendAsync demo_provider 3 11) (init demo_heap))"
    by (simp add: established_def negotiating_def)
  have c: "0 = length (connectors (init demo_heap))"
    by (simp add: init_def)
  have z: "negotiations (init demo_heap) = 0"
    by (simp add: negotiations_def init_def)
  have b: "bridgeURL other_provider \<noteq> bridgeURL demo_provider"
    by (simp add: other_provider_def demo_provider_def WalletConnectProvider_def)
  have k: "wc_connected (connectors established ! 0)"
    by code_simp
  have th: "webconnector established = Some 0 \<and>
         wc_bridge (connectors established ! 0) = bridgeURL demo_provider \<and>
         (\<forall>nl\<in>set (wc_listeners (connectors established ! 0)).
            listener_provider (snd nl) = demo_provider) \<and>
         negotiations established = Suc (negotiations (init demo_heap)) \<and>
         isConnected other_provider established = wc_connected (connectors established ! 0) \<and>
         effects (disconnect other_provider established) =
           effects established @
           (if wc_connected (connectors established ! 0) then [WC_killSession 0] else []) \<and>
         (rq_method (heap (init demo_heap) 1) \<in> set supportedMethods \<longrightarrow>
            sessionPromise (step demo_externals (Call_sendAsync other_provider 1 10) established)
              = sessionPromise established \<and>
            webconnector (step demo_externals (Call_sendAsync other_provider 1 10) established)
              = Some 0 \<and>
            connectors (step demo_externals (Call_sendAsync other_provider 1 10) established)
              = connectors established \<and>
            effects (step demo_externals (Call_sendAsync other_provider 1 10) established)
              = effects established)"
    by (rule shared_session [OF a m(1) nc t c])
  have n: "negotiations (step demo_externals (Call_sendAsync other_provider 1 10) established)
      = negotiations established"
    using th m(2) by (simp add: negotiations_def)
  show ?thesis
    using a m(1) b k z th m(2) n by simp
qed

end
